theory Spec2Isabelle
  imports Complex_Main "HOL-Library.Word" "HOL-Library.Multiset"
begin

section \<open>The presentation layer (frontend/src)\<close>

text \<open>
  Text that the code only stores, compares with the empty string or concatenates is a
  \<^typ>\<open>string\<close>, read as the UTF-8 bytes of the text. The job description, whose
  \<^verbatim>\<open>length\<close> and surrounding white space \<^verbatim>\<open>JobForm\<close> inspects, is a list of
  UTF-16 code units, which is what a JavaScript string counts. A JavaScript number is
  given by its real value. The list of results only compares numbers and takes the sign
  of a difference, which the rounding of IEEE doubles does not change; the arithmetic
  of the card, where that rounding decides the displayed digits, is modelled with it.
\<close>

type_synonym js_string = "16 word list"

subsection \<open>types.ts\<close>

text \<open>
  The interface \<^verbatim>\<open>Candidate\<close>. Its field \<^verbatim>\<open>id\<close> is called \<open>cid\<close> here.
  The interface declares \<^verbatim>\<open>scoreBreakdown\<close> with the four properties
  \<^verbatim>\<open>skills, experience, education, culture\<close>; that declaration is erased at run
  time, where the value is whatever object \<^verbatim>\<open>fetchCandidates\<close> stored and
  \<^verbatim>\<open>CandidateCard\<close> walks it with \<^verbatim>\<open>Object.entries\<close>. It is therefore a list of
  entries, in property order.
\<close>

record candidate =
  cid :: string
  name :: string
  title :: string
  linkedinUrl :: string
  fitScore :: real
  scoreBreakdown :: "(string \<times> real) list"
  outreachMessage :: string
  avatar :: string

subsection \<open>api.ts\<close>

text \<open>
  \<^verbatim>\<open>fetchCandidates\<close> reads the response body as \<^verbatim>\<open>any\<close>. The model gives the body
  the shape the backend documents (an object with a list \<^verbatim>\<open>top_candidates\<close> of
  objects) and lets every property the code reads be absent or \<^verbatim>\<open>null\<close>, which
  is \<open>None\<close>. A body of another shape is outside the model: on a list element that
  is \<^verbatim>\<open>null\<close>, or on a \<^verbatim>\<open>top_candidates\<close> that is truthy without being an
  array, the JavaScript raises a \<^verbatim>\<open>TypeError\<close>, which rejects the promise as a
  failed request does.
\<close>

record response_candidate =
  r_name :: "string option"
  r_headline :: "string option"
  r_linkedin_url :: "string option"
  r_url :: "string option"
  r_fit_score :: "real option"
  r_score_breakdown :: "(string \<times> real) list option"
  r_outreach_message :: "string option"
  r_message :: "string option"

record response_data =
  top_candidates :: "response_candidate list option"

record request_body =
  q_job_description :: js_string
  q_top_candidates :: nat
  q_use_cache :: bool

text \<open>
  \<^verbatim>\<open>axios.post\<close> resolves with the response of a 2xx status and rejects otherwise;
  the rejection carries the \<^verbatim>\<open>detail\<close> of the error body when there is one.
\<close>

datatype http_result = HttpOk response_data | HttpError "string option"

text \<open>
  The operator \<^verbatim>\<open>||\<close> yields its right operand when the left one is falsy:
  \<^verbatim>\<open>undefined\<close>, \<^verbatim>\<open>null\<close>, the empty string or the number zero. An object is
  always truthy.
\<close>

definition or_string :: "string option \<Rightarrow> string \<Rightarrow> string" where
  "or_string a b = (case a of None \<Rightarrow> b | Some s \<Rightarrow> if s = [] then b else s)"

definition or_number :: "real option \<Rightarrow> real \<Rightarrow> real" where
  "or_number a b = (case a of None \<Rightarrow> b | Some x \<Rightarrow> if x = 0 then b else x)"

definition or_object :: "'a option \<Rightarrow> 'a \<Rightarrow> 'a" where
  "or_object a b = (case a of None \<Rightarrow> b | Some x \<Rightarrow> x)"

text \<open>\<^verbatim>\<open>Number.prototype.toString\<close> on an array index: its decimal digits.\<close>

definition digit_char :: "nat \<Rightarrow> char" where
  "digit_char d = char_of (48 + d)"

fun toString :: "nat \<Rightarrow> string" where
  "toString n = (if n < 10 then [digit_char n] else toString (n div 10) @ [digit_char (n mod 10)])"

declare toString.simps [simp del]

text \<open>
  \<^verbatim>\<open>encodeURIComponent\<close>: every byte of the UTF-8 encoding is kept when it is an
  unreserved character and written as \<^verbatim>\<open>%XX\<close> otherwise.
\<close>

definition uri_unreserved :: "char \<Rightarrow> bool" where
  "uri_unreserved c \<longleftrightarrow>
     c \<in> set (''ABCDEFGHIJKLMNOPQRSTUVWXYZabcdefghijklmnopqrstuvwxyz0123456789'' @ ''-_.!~*()'' @ [CHR 0x27])"

definition hex_upper :: "nat \<Rightarrow> char" where
  "hex_upper d = (if d < 10 then char_of (48 + d) else char_of (55 + d))"

definition encodeURIComponent :: "string \<Rightarrow> string" where
  "encodeURIComponent s =
     concat (map (\<lambda>c. if uri_unreserved c then [c]
                       else [CHR ''%'', hex_upper (of_char c div 16), hex_upper (of_char c mod 16)]) s)"

definition BASE_URL :: string where
  "BASE_URL = ''http://localhost:5000''"

definition request :: "js_string \<Rightarrow> request_body" where
  "request jobDescription =
     \<lparr>q_job_description = jobDescription, q_top_candidates = 10, q_use_cache = True\<rparr>"

definition to_candidate :: "nat \<times> response_candidate \<Rightarrow> candidate" where
  "to_candidate p = (case p of (idx, c) \<Rightarrow>
     \<lparr>cid = toString idx,
      name = or_string (r_name c) '''',
      title = or_string (r_headline c) '''',
      linkedinUrl = or_string (r_linkedin_url c) (or_string (r_url c) ''''),
      fitScore = or_number (r_fit_score c) 0,
      scoreBreakdown = or_object (r_score_breakdown c) [],
      outreachMessage = or_string (r_outreach_message c) (or_string (r_message c) ''''),
      avatar = ''https://api.dicebear.com/7.x/identicon/svg?seed=''
                 @ encodeURIComponent (or_string (r_name c) ''candidate'')\<rparr>)"

text \<open>
  \<^verbatim>\<open>fetchCandidates\<close>, with the HTTP exchange as the parameter \<open>post\<close>, which is
  given the URL and the body of the request. A rejected request is the \<open>Inl\<close> result;
  \<^verbatim>\<open>Array.prototype.map\<close> hands the callback each element with its index.
\<close>

type_synonym http_post = "string \<Rightarrow> request_body \<Rightarrow> http_result"

definition fetchCandidates :: "http_post \<Rightarrow> js_string \<Rightarrow> string option + candidate list" where
  "fetchCandidates post jobDescription =
     (case post (BASE_URL @ ''/huggingface'') (request jobDescription) of
        HttpError detail \<Rightarrow> Inl detail
      | HttpOk data \<Rightarrow> Inr (map to_candidate (enumerate 0 (or_object (top_candidates data) []))))"

subsection \<open>components/ResultsDisplay.tsx\<close>

datatype sort_by = Score | Name

text \<open>
  \<^verbatim>\<open>Array.prototype.sort\<close> with a comparator: a stable sort (ECMAScript 2019), here
  by insertion. An element moves behind a later one only when the comparator is positive
  on the pair.
\<close>

fun insert_cmp :: "('a \<Rightarrow> 'a \<Rightarrow> real) \<Rightarrow> 'a \<Rightarrow> 'a list \<Rightarrow> 'a list" where
  "insert_cmp cmp x [] = [x]"
| "insert_cmp cmp x (y # ys) = (if cmp x y \<le> 0 then x # y # ys else y # insert_cmp cmp x ys)"

definition array_sort :: "('a \<Rightarrow> 'a \<Rightarrow> real) \<Rightarrow> 'a list \<Rightarrow> 'a list" where
  "array_sort cmp xs = foldr (insert_cmp cmp) xs []"

text \<open>
  The component's state: \<^verbatim>\<open>useState('score')\<close> and \<^verbatim>\<open>useState(0)\<close>; the
  minimum score is set from one of the four options of the select element.
\<close>

definition initial_sortBy :: sort_by where
  "initial_sortBy = Score"

definition initial_filterMinScore :: real where
  "initial_filterMinScore = 0"

definition minScoreOptions :: "real list" where
  "minScoreOptions = [0, 70, 80, 90]"

text \<open>
  The comparator of the component; \<^verbatim>\<open>String.prototype.localeCompare\<close> depends on
  the locale of the browser and is the parameter \<open>localeCompare\<close>.
\<close>

definition compare_candidates :: "(string \<Rightarrow> string \<Rightarrow> real) \<Rightarrow> sort_by \<Rightarrow> candidate \<Rightarrow> candidate \<Rightarrow> real" where
  "compare_candidates localeCompare sortBy a b =
     (if sortBy = Score then fitScore b - fitScore a else localeCompare (name a) (name b))"

definition filteredAndSortedCandidates ::
  "(string \<Rightarrow> string \<Rightarrow> real) \<Rightarrow> candidate list \<Rightarrow> sort_by \<Rightarrow> real \<Rightarrow> candidate list" where
  "filteredAndSortedCandidates localeCompare candidates sortBy filterMinScore =
     array_sort (compare_candidates localeCompare sortBy)
       (filter (\<lambda>candidate. fitScore candidate \<ge> filterMinScore) candidates)"

text \<open>
  What the component renders: the skeleton while loading, otherwise one card per element
  of \<^verbatim>\<open>filteredAndSortedCandidates\<close>, in order, under a heading with their number,
  and the notice that nothing matches when there is none.
\<close>

datatype results_view = Skeleton | Cards nat "candidate list" bool

definition ResultsDisplay ::
  "(string \<Rightarrow> string \<Rightarrow> real) \<Rightarrow> candidate list \<Rightarrow> bool \<Rightarrow> sort_by \<Rightarrow> real \<Rightarrow> results_view" where
  "ResultsDisplay localeCompare candidates isLoading sortBy filterMinScore =
     (if isLoading then Skeleton
      else let shown = filteredAndSortedCandidates localeCompare candidates sortBy filterMinScore
           in Cards (length shown) shown (length shown = 0))"

subsection \<open>components/CandidateCard.tsx\<close>

text \<open>
  The arithmetic of the component is the one of IEEE 754 doubles. A JavaScript number
  that is not \<^verbatim>\<open>NaN\<close> is a finite double, given by its value, or an infinity.
\<close>

datatype js_number = Finite real | PosInfinity | NegInfinity

text \<open>The position of the highest bit of a positive integer.\<close>

fun ilog2 :: "nat \<Rightarrow> nat" where
  "ilog2 n = (if n < 2 then 0 else Suc (ilog2 (n div 2)))"

declare ilog2.simps [simp del]

definition pow2 :: "int \<Rightarrow> real" where
  "pow2 k = (if 0 \<le> k then 2 ^ nat k else 1 / 2 ^ nat (- k))"

text \<open>
  The binary exponent of a real number other than zero: \<open>pow2 (exponent x) \<le> \<bar>x\<bar>\<close> and
  \<open>\<bar>x\<bar> < pow2 (exponent x + 1)\<close>.
\<close>

definition exponent :: "real \<Rightarrow> int" where
  "exponent x =
     (if 1 \<le> \<bar>x\<bar> then int (ilog2 (nat \<lfloor>\<bar>x\<bar>\<rfloor>))
      else - int (ilog2 (nat (\<lceil>1 / \<bar>x\<bar>\<rceil> - 1))) - 1)"

text \<open>
  The distance of neighbouring doubles around \<open>x\<close>: 52 bits below the exponent, and
  \<open>pow2 (- 1074)\<close> in the subnormal range.
\<close>

definition ulp :: "real \<Rightarrow> real" where
  "ulp x = pow2 (max (exponent x) (- 1022) - 52)"

text \<open>Rounding to the nearest integer, a tie to the even one.\<close>

definition round_even :: "real \<Rightarrow> int" where
  "round_even y =
     (let f = \<lfloor>y\<rfloor>; d = y - of_int f
      in if d < 1 / 2 then f else if 1 / 2 < d then f + 1 else if even f then f else f + 1)"

text \<open>
  The rounding of a real result to a double, to nearest with ties to even; a result
  beyond the largest double overflows to an infinity.
\<close>

definition nearest :: "real \<Rightarrow> real" where
  "nearest x = of_int (round_even (x / ulp x)) * ulp x"

definition to_double :: "real \<Rightarrow> js_number" where
  "to_double x =
     (let r = nearest x
      in if 2 ^ 1024 \<le> \<bar>r\<bar> then (if 0 < x then PosInfinity else NegInfinity) else Finite r)"

text \<open>
  The operators \<^verbatim>\<open>*\<close> and \<^verbatim>\<open>/\<close> with a right operand that is a positive double,
  as are 10 and 100, and \<^verbatim>\<open>Math.round\<close>, which rounds to the nearest integer, a half
  upwards, and is exact on doubles.
\<close>

definition times :: "js_number \<Rightarrow> real \<Rightarrow> js_number" where
  "times a c = (case a of Finite x \<Rightarrow> to_double (x * c) | PosInfinity \<Rightarrow> PosInfinity
                | NegInfinity \<Rightarrow> NegInfinity)"

definition divided :: "js_number \<Rightarrow> real \<Rightarrow> js_number" where
  "divided a c = (case a of Finite x \<Rightarrow> to_double (x / c) | PosInfinity \<Rightarrow> PosInfinity
                  | NegInfinity \<Rightarrow> NegInfinity)"

definition Math_round :: "js_number \<Rightarrow> js_number" where
  "Math_round a = (case a of Finite x \<Rightarrow> Finite (of_int \<lfloor>x + 1 / 2\<rfloor>) | PosInfinity \<Rightarrow> PosInfinity
                   | NegInfinity \<Rightarrow> NegInfinity)"

text \<open>The expression \<^verbatim>\<open>Math.round((v * 10) * 100) / 100\<close> of the component.\<close>

definition percentage :: "real \<Rightarrow> js_number" where
  "percentage v = divided (Math_round (times (times (Finite v) 10) 100)) 100"

definition fitScoreDisplay :: "candidate \<Rightarrow> js_number" where
  "fitScoreDisplay candidate = percentage (fitScore candidate)"

definition scoreBreakdownDisplay :: "candidate \<Rightarrow> (string \<times> js_number) list" where
  "scoreBreakdownDisplay candidate =
     map (\<lambda>(k, v). (k, percentage v)) (scoreBreakdown candidate)"

text \<open>
  The words of the specification: a value rounded to two decimal places, that is, the
  nearest whole number of hundredths, a tie going upwards.
\<close>

definition spec_two_decimals :: "real \<Rightarrow> real" where
  "spec_two_decimals x = of_int \<lfloor>x * 100 + 1 / 2\<rfloor> / 100"

subsection \<open>components/JobForm.tsx\<close>

text \<open>
  \<^verbatim>\<open>String.prototype.trim\<close> removes the white space and line terminators of
  ECMAScript from both ends. All of them are single code units.
\<close>

definition is_white_space :: "16 word \<Rightarrow> bool" where
  "is_white_space c \<longleftrightarrow>
     c \<in> set [0x0009, 0x000A, 0x000B, 0x000C, 0x000D, 0x0020, 0x00A0, 0x1680,
              0x2000, 0x2001, 0x2002, 0x2003, 0x2004, 0x2005, 0x2006, 0x2007,
              0x2008, 0x2009, 0x200A, 0x2028, 0x2029, 0x202F, 0x205F, 0x3000, 0xFEFF]"

definition trim :: "js_string \<Rightarrow> js_string" where
  "trim s = rev (dropWhile is_white_space (rev (dropWhile is_white_space s)))"

record form_state =
  jobDescription :: js_string
  error :: string
  charCount :: nat

definition handleChange :: "form_state \<Rightarrow> js_string \<Rightarrow> form_state" where
  "handleChange st v =
     (let st' = st\<lparr>jobDescription := v, charCount := length v\<rparr>
      in if error st \<noteq> [] then st'\<lparr>error := ''''\<rparr> else st')"

text \<open>
  \<^verbatim>\<open>handleSubmit\<close> returns the new state of the form and the argument of the call of
  \<^verbatim>\<open>onSubmit\<close>, if it makes one.
\<close>

definition handleSubmit :: "form_state \<Rightarrow> form_state \<times> js_string option" where
  "handleSubmit st =
     (if length (trim (jobDescription st)) < 100
      then (st\<lparr>error := ''Job description must be at least 100 characters long.''\<rparr>, None)
      else if length (trim (jobDescription st)) > 2000
      then (st\<lparr>error := ''Job description must not exceed 2000 characters.''\<rparr>, None)
      else (st, Some (trim (jobDescription st))))"

subsection \<open>App.tsx\<close>

record app_state =
  showResults :: bool
  candidates :: "candidate list"
  isLoading :: bool
  app_error :: "string option"

text \<open>
  \<^verbatim>\<open>handleJobSubmit\<close>, the \<^verbatim>\<open>onSubmit\<close> of the form: the state once the request
  has settled.
\<close>

definition handleJobSubmit :: "http_post \<Rightarrow> app_state \<Rightarrow> js_string \<Rightarrow> app_state" where
  "handleJobSubmit post st description =
     (case fetchCandidates post description of
        Inr realCandidates \<Rightarrow>
          \<lparr>showResults = True, candidates = realCandidates, isLoading = False, app_error = None\<rparr>
      | Inl detail \<Rightarrow>
          \<lparr>showResults = False, candidates = [], isLoading = False,
           app_error = Some (or_string detail ''Something went wrong.'')\<rparr>)"

text \<open>
  A click on the submit button: the form decides, and only a call of \<^verbatim>\<open>onSubmit\<close>
  reaches the application and, through it, the backend.
\<close>

definition submit :: "http_post \<Rightarrow> form_state \<times> app_state \<Rightarrow> form_state \<times> app_state" where
  "submit post s = (case s of (form, app) \<Rightarrow>
     (case handleSubmit form of
        (form', None) \<Rightarrow> (form', app)
      | (form', Some jd) \<Rightarrow> (form', handleJobSubmit post app jd)))"

section \<open>The sourcing pipeline (backend)\<close>

text \<open>
  The Python modules of the pipeline (\<^verbatim>\<open>main.py\<close>, \<^verbatim>\<open>search.py\<close>, \<^verbatim>\<open>score.py\<close>,
  \<^verbatim>\<open>message.py\<close>, \<^verbatim>\<open>api.py\<close>) are not among the sources; the frontend above is
  their caller. Every definition of this section is modelled from the specification, and
  from the repository's own documents where they fix a detail (the six weights and the
  JSON keys of a result in the README). The search and inference services are the
  environment: what they answer is an argument of the functions. Numbers are real numbers
  and text is a \<^typ>\<open>string\<close>, as above.
\<close>

subsection \<open>Data model\<close>

text \<open>
  Modelled from the spec: the three discovery strategies of the Profile Discoverer, in
  priority order (\<^verbatim>\<open>search.py\<close> is missing).
\<close>

datatype strategy = StructuredSearch | AlternateSearch | Scraping

text \<open>Modelled from the spec: the entity \<^verbatim>\<open>CandidateProfile\<close> of the data model.\<close>

record candidate_profile =
  profile_url :: string
  display_name :: string
  headline :: string
  raw_text :: string
  source :: strategy

text \<open>
  Modelled from the spec: the entity \<^verbatim>\<open>ScoreBreakdown\<close>, one value for each of the
  six criteria.
\<close>

record score_breakdown =
  education :: real
  career_trajectory :: real
  experience_match :: real
  company_relevance :: real
  location_match :: real
  tenure :: real

text \<open>Modelled from the spec: the range \<open>[0,10]\<close> of a criterion value.\<close>

definition in_range :: "real \<Rightarrow> bool" where
  "in_range v \<longleftrightarrow> 0 \<le> v \<and> v \<le> 10"

text \<open>Modelled from the spec: the invariant of a \<^verbatim>\<open>ScoreBreakdown\<close>.\<close>

definition valid_breakdown :: "score_breakdown \<Rightarrow> bool" where
  "valid_breakdown b \<longleftrightarrow>
     in_range (education b) \<and> in_range (career_trajectory b) \<and> in_range (experience_match b)
   \<and> in_range (company_relevance b) \<and> in_range (location_match b) \<and> in_range (tenure b)"

text \<open>
  Modelled from the spec: \<^verbatim>\<open>FitScore\<close>, the weighted sum of the six criteria with
  the weights 0.20, 0.20, 0.25, 0.15, 0.10 and 0.10 (the scorer \<^verbatim>\<open>score.py\<close> is missing;
  the README gives the same weights as percentages).
\<close>

definition FitScore :: "score_breakdown \<Rightarrow> real" where
  "FitScore b =
     education b * 0.20 + career_trajectory b * 0.20 + experience_match b * 0.25
   + company_relevance b * 0.15 + location_match b * 0.10 + tenure b * 0.10"

text \<open>Modelled from the spec: the entity \<^verbatim>\<open>RankedResult\<close>, with its fallback mark.\<close>

record ranked_result =
  rr_candidate :: candidate_profile
  rr_fit_score :: real
  rr_breakdown :: score_breakdown
  rr_message :: string
  rr_fallback :: bool

text \<open>
  Modelled from the spec: the one error that ends a request inside the pipeline
  (\<^verbatim>\<open>InvalidInput\<close> belongs to the caller).
\<close>

datatype pipeline_error = DiscoveryUnavailable

subsection \<open>Fit Scorer\<close>

text \<open>
  Modelled from the spec: the outcome of one call of the inference backend. It replies or
  fails, transiently (a timeout, a rate limit) or not.
\<close>

datatype 'a attempt = Reply 'a | TransientFailure | PermanentFailure

text \<open>
  Modelled from the spec: the reply to the scoring prompt, text in which a JSON object is
  expected. The object is given by its entries, each value a number or not; a reply
  without an object is \<open>None\<close>.
\<close>

datatype json_value = Number real | NotNumber

type_synonym json_object = "(string \<times> json_value) list"

text \<open>
  Modelled from the spec: the retry policy of the scorer. A transient failure is retried
  until the retry ceiling is used up, any other failure ends the calls at once. The list
  holds what the successive calls would answer.
\<close>

fun call_with_retry :: "nat \<Rightarrow> 'a attempt list \<Rightarrow> 'a option" where
  "call_with_retry retries [] = None"
| "call_with_retry retries (Reply r # rest) = Some r"
| "call_with_retry retries (PermanentFailure # rest) = None"
| "call_with_retry 0 (TransientFailure # rest) = None"
| "call_with_retry (Suc retries) (TransientFailure # rest) = call_with_retry retries rest"

text \<open>
  Modelled from the spec: the validation of one criterion of the reply. The key must be
  there, with a number in \<open>[0,10]\<close>.
\<close>

definition criterion :: "json_object \<Rightarrow> string \<Rightarrow> real option" where
  "criterion obj k =
     (case map_of obj k of
        Some (Number v) \<Rightarrow> if in_range v then Some v else None
      | _ \<Rightarrow> None)"

text \<open>
  Modelled from the spec: the parse of the whole reply. One missing, non-numeric or
  out-of-range criterion rejects the whole breakdown.
\<close>

definition parse_breakdown :: "json_object \<Rightarrow> score_breakdown option" where
  "parse_breakdown obj =
     (case (criterion obj ''education'', criterion obj ''career_trajectory'',
            criterion obj ''experience_match'', criterion obj ''company_relevance'',
            criterion obj ''location_match'', criterion obj ''tenure'') of
        (Some e, Some c, Some x, Some r, Some l, Some t) \<Rightarrow>
          Some \<lparr>education = e, career_trajectory = c, experience_match = x,
                company_relevance = r, location_match = l, tenure = t\<rparr>
      | _ \<Rightarrow> None)"

text \<open>Modelled from the spec: the fallback breakdown, the neutral value 5 for every criterion.\<close>

definition fallback_breakdown :: score_breakdown where
  "fallback_breakdown =
     \<lparr>education = 5, career_trajectory = 5, experience_match = 5,
      company_relevance = 5, location_match = 5, tenure = 5\<rparr>"

text \<open>
  Modelled from the spec: the result of the scorer, the fit score with its breakdown and
  the mark of a fallback.
\<close>

record score_result =
  sr_fit_score :: real
  sr_breakdown :: score_breakdown
  sr_fallback :: bool

text \<open>Modelled from the spec: the fit score is computed from the breakdown by the fixed weights.\<close>

definition scored :: "score_breakdown \<Rightarrow> bool \<Rightarrow> score_result" where
  "scored b fb = \<lparr>sr_fit_score = FitScore b, sr_breakdown = b, sr_fallback = fb\<rparr>"

text \<open>
  Modelled from the spec: \<^verbatim>\<open>score(job_description, candidate)\<close> of the Fit Scorer
  (\<^verbatim>\<open>score.py\<close> is missing). The job description and the candidate act through the
  prompt only, so the function is given what the inference backend answers to it.
\<close>

definition score :: "nat \<Rightarrow> json_object option attempt list \<Rightarrow> score_result" where
  "score retries answers =
     (case call_with_retry retries answers of
        Some (Some obj) \<Rightarrow>
          (case parse_breakdown obj of
             Some b \<Rightarrow> scored b False
           | None \<Rightarrow> scored fallback_breakdown True)
      | _ \<Rightarrow> scored fallback_breakdown True)"

subsection \<open>Profile Discoverer\<close>

text \<open>
  Modelled from the spec: what one discovery strategy did for the request. It failed
  outright (a network or authentication failure) or it returned profiles, possibly none.
\<close>

datatype strategy_outcome = Failed | Found "candidate_profile list"

text \<open>
  Modelled from the spec: a strategy removes duplicates by profile URL; the first
  profile found with a URL is kept.
\<close>

fun dedup :: "string list \<Rightarrow> candidate_profile list \<Rightarrow> candidate_profile list" where
  "dedup seen [] = []"
| "dedup seen (p # ps) =
     (if profile_url p \<in> set seen then dedup seen ps else p # dedup (profile_url p # seen) ps)"

text \<open>
  Modelled from the spec: the chain of strategies, tried in priority order up to the
  first one that returns at least one profile.
\<close>

fun first_found :: "strategy_outcome list \<Rightarrow> candidate_profile list option" where
  "first_found [] = None"
| "first_found (Failed # rest) = first_found rest"
| "first_found (Found ps # rest) =
     (if dedup [] ps = [] then first_found rest else Some (dedup [] ps))"

text \<open>
  Modelled from the spec: the outcomes of the three strategies for one request, the
  structured search API, the alternate search API and the scraping of result pages.
\<close>

record strategies =
  structured_search :: strategy_outcome
  alternate_search :: strategy_outcome
  scraping :: strategy_outcome

text \<open>Modelled from the spec: the priority order of the three strategies.\<close>

definition chain :: "strategies \<Rightarrow> strategy_outcome list" where
  "chain s = [structured_search s, alternate_search s, scraping s]"

text \<open>
  Modelled from the spec: \<^verbatim>\<open>discover(job_description, max_results)\<close> of the Profile
  Discoverer (\<^verbatim>\<open>search.py\<close> is missing). No profile is an empty result; the condition
  \<^verbatim>\<open>DiscoveryUnavailable\<close> is raised when every strategy of the chain failed outright.
\<close>

definition discover :: "strategies \<Rightarrow> nat \<Rightarrow> pipeline_error + candidate_profile list" where
  "discover s max_results =
     (case first_found (chain s) of
        Some ps \<Rightarrow> Inr (take max_results ps)
      | None \<Rightarrow> if list_all (\<lambda>outcome. outcome = Failed) (chain s)
                then Inl DiscoveryUnavailable else Inr [])"

subsection \<open>Pipeline Orchestrator\<close>

text \<open>
  Modelled from the spec: what the external collaborators do during one request, namely
  the outcome of each discovery strategy, the answers of the inference backend to the
  scoring prompt of each candidate, and the message that the Outreach Composer
  (\<^verbatim>\<open>message.py\<close>, missing) returns for each candidate.
\<close>

record environment =
  env_strategies :: strategies
  env_scoring :: "candidate_profile \<Rightarrow> json_object option attempt list"
  env_message :: "candidate_profile \<Rightarrow> string"

text \<open>
  Modelled from the spec: the configuration handed to the orchestrator, the bound on the
  discovered profiles and the retry ceiling.
\<close>

record config =
  max_results :: nat
  max_retries :: nat

text \<open>
  Modelled from the spec: the stage \<^verbatim>\<open>SCORE_AND_COMPOSE\<close> for one candidate. The
  batches and the delays between calls order the work in time and do not change a result.
\<close>

definition score_and_compose :: "config \<Rightarrow> environment \<Rightarrow> candidate_profile \<Rightarrow> ranked_result" where
  "score_and_compose cfg env p =
     (let r = score (max_retries cfg) (env_scoring env p)
      in \<lparr>rr_candidate = p, rr_fit_score = sr_fit_score r, rr_breakdown = sr_breakdown r,
          rr_message = env_message env p, rr_fallback = sr_fallback r\<rparr>)"

text \<open>
  Modelled from the spec: the stage \<^verbatim>\<open>RANK\<close>, a stable sort by descending fit score.
\<close>

definition rank :: "ranked_result list \<Rightarrow> ranked_result list" where
  "rank rs = array_sort (\<lambda>a b. rr_fit_score b - rr_fit_score a) rs"

text \<open>
  Modelled from the spec: \<^verbatim>\<open>run_pipeline(job_description, top_n, use_cache)\<close> of the
  Pipeline Orchestrator (\<^verbatim>\<open>main.py\<close> is missing) on a cache miss: discovery, scoring
  and composition of every profile, ranking, the first \<open>top_n\<close> results. Only the error
  of the discovery ends the request.
\<close>

definition run_pipeline :: "config \<Rightarrow> environment \<Rightarrow> nat \<Rightarrow> pipeline_error + ranked_result list" where
  "run_pipeline cfg env top_n =
     (case discover (env_strategies env) (max_results cfg) of
        Inl e \<Rightarrow> Inl e
      | Inr profiles \<Rightarrow> Inr (take top_n (rank (map (score_and_compose cfg env) profiles))))"

subsection \<open>The result as the presentation layer receives it\<close>

text \<open>Modelled from the spec: the names of the six criteria, the keys of a breakdown.\<close>

definition criteria :: "string list" where
  "criteria = [''education'', ''career_trajectory'', ''experience_match'',
               ''company_relevance'', ''location_match'', ''tenure'']"

text \<open>
  Modelled from the spec: a breakdown as the mapping from criterion name to value that a
  result carries (the README's example output shows it under \<^verbatim>\<open>score_breakdown\<close>).
\<close>

definition breakdown_entries :: "score_breakdown \<Rightarrow> (string \<times> real) list" where
  "breakdown_entries b =
     [(''education'', education b), (''career_trajectory'', career_trajectory b),
      (''experience_match'', experience_match b), (''company_relevance'', company_relevance b),
      (''location_match'', location_match b), (''tenure'', tenure b)]"

text \<open>
  Modelled from the spec: the result item exposed to the presentation layer (the endpoint
  in \<^verbatim>\<open>api.py\<close> is missing), under the keys of the README's example output.
\<close>

definition to_response_candidate :: "ranked_result \<Rightarrow> response_candidate" where
  "to_response_candidate r =
     \<lparr>r_name = Some (display_name (rr_candidate r)),
      r_headline = Some (headline (rr_candidate r)),
      r_linkedin_url = Some (profile_url (rr_candidate r)),
      r_url = None,
      r_fit_score = Some (rr_fit_score r),
      r_score_breakdown = Some (breakdown_entries (rr_breakdown r)),
      r_outreach_message = None,
      r_message = Some (rr_message r)\<rparr>"

text \<open>
  Modelled from the spec: the endpoint \<^verbatim>\<open>/huggingface\<close> that the frontend posts to
  (\<^verbatim>\<open>api.py\<close> is missing). The request asks for \<open>top_candidates\<close> results; a
  failed discovery is reported as an error response.
\<close>

definition endpoint :: "config \<Rightarrow> environment \<Rightarrow> request_body \<Rightarrow> http_result" where
  "endpoint cfg env req =
     (case run_pipeline cfg env (q_top_candidates req) of
        Inl e \<Rightarrow> HttpError (Some ''DiscoveryUnavailable'')
      | Inr rs \<Rightarrow> HttpOk \<lparr>top_candidates = Some (map to_response_candidate rs)\<rparr>)"

subsection \<open>Cache Store: key derivation\<close>

text \<open>Modelled from the spec: the white space that the normalization trims and collapses.\<close>

definition is_space :: "char \<Rightarrow> bool" where
  "is_space c \<longleftrightarrow> c \<in> set [CHR 0x20, CHR 0x09, CHR 0x0A, CHR 0x0B, CHR 0x0C, CHR 0x0D]"

text \<open>Modelled from the spec: every run of white space collapsed to one space.\<close>

fun collapse :: "string \<Rightarrow> string" where
  "collapse [] = []"
| "collapse [a] = [if is_space a then CHR 0x20 else a]"
| "collapse (a # b # cs) =
     (if is_space a then (if is_space b then collapse (b # cs) else CHR 0x20 # collapse (b # cs))
      else a # collapse (b # cs))"

text \<open>
  Modelled from the spec: the normalized form of a job description, trimmed and
  whitespace-collapsed.
\<close>

definition normalise :: "string \<Rightarrow> string" where
  "normalise s = collapse (rev (dropWhile is_space (rev (dropWhile is_space s))))"

text \<open>
  Modelled from the spec: the cache key, a hash of the normalized job description (the
  cache of \<^verbatim>\<open>main.py\<close> is missing). The hash function is the parameter \<open>digest\<close>; the
  project write-up names MD5, whose digests have 128 bits.
\<close>

definition cache_key :: "(string \<Rightarrow> 'd) \<Rightarrow> string \<Rightarrow> 'd" where
  "cache_key digest job_description = digest (normalise job_description)"

text \<open>
  Modelled from the spec: the hash function of the cache key. The specification asks for a
  stable content hash and the project write-up names it: the MD5 hash of the job
  description. MD5 is written out here after RFC 1321 (the cache of \<^verbatim>\<open>main.py\<close> and
  the library it calls are missing), on the UTF-8 bytes of the text, with the digest in
  hexadecimal. A state is the four 32-bit words of the algorithm, a block has 64 bytes.
\<close>

unbundle bit_operations_syntax

definition md5_K :: "32 word list" where
  "md5_K =
    [0xd76aa478, 0xe8c7b756, 0x242070db, 0xc1bdceee,
     0xf57c0faf, 0x4787c62a, 0xa8304613, 0xfd469501,
     0x698098d8, 0x8b44f7af, 0xffff5bb1, 0x895cd7be,
     0x6b901122, 0xfd987193, 0xa679438e, 0x49b40821,
     0xf61e2562, 0xc040b340, 0x265e5a51, 0xe9b6c7aa,
     0xd62f105d, 0x02441453, 0xd8a1e681, 0xe7d3fbc8,
     0x21e1cde6, 0xc33707d6, 0xf4d50d87, 0x455a14ed,
     0xa9e3e905, 0xfcefa3f8, 0x676f02d9, 0x8d2a4c8a,
     0xfffa3942, 0x8771f681, 0x6d9d6122, 0xfde5380c,
     0xa4beea44, 0x4bdecfa9, 0xf6bb4b60, 0xbebfbc70,
     0x289b7ec6, 0xeaa127fa, 0xd4ef3085, 0x04881d05,
     0xd9d4d039, 0xe6db99e5, 0x1fa27cf8, 0xc4ac5665,
     0xf4292244, 0x432aff97, 0xab9423a7, 0xfc93a039,
     0x655b59c3, 0x8f0ccc92, 0xffeff47d, 0x85845dd1,
     0x6fa87e4f, 0xfe2ce6e0, 0xa3014314, 0x4e0811a1,
     0xf7537e82, 0xbd3af235, 0x2ad7d2bb, 0xeb86d391]"

definition md5_s :: "nat list" where
  "md5_s = [7, 12, 17, 22, 7, 12, 17, 22, 7, 12, 17, 22, 7, 12, 17, 22,
            5, 9, 14, 20, 5, 9, 14, 20, 5, 9, 14, 20, 5, 9, 14, 20,
            4, 11, 16, 23, 4, 11, 16, 23, 4, 11, 16, 23, 4, 11, 16, 23,
            6, 10, 15, 21, 6, 10, 15, 21, 6, 10, 15, 21, 6, 10, 15, 21]"

type_synonym md5_state = "32 word \<times> 32 word \<times> 32 word \<times> 32 word"

definition md5_step :: "32 word list \<Rightarrow> md5_state \<Rightarrow> nat \<Rightarrow> md5_state" where
  "md5_step M st i = (case st of (A, B, C, D) \<Rightarrow>
     let (F, g) =
           (if i < 16 then ((B AND C) OR (NOT B AND D), i)
            else if i < 32 then ((D AND B) OR (NOT D AND C), (5 * i + 1) mod 16)
            else if i < 48 then (B XOR C XOR D, (3 * i + 5) mod 16)
            else (C XOR (B OR NOT D), (7 * i) mod 16));
         F' = F + A + md5_K ! i + M ! g
     in (D, B + (push_bit (md5_s ! i) F' OR drop_bit (32 - md5_s ! i) F'), B, C))"

definition le_word :: "char list \<Rightarrow> 32 word" where
  "le_word bs = foldr (\<lambda>b w. of_nat (of_char b) + push_bit 8 w) bs 0"

fun chunks :: "nat \<Rightarrow> 'a list \<Rightarrow> 'a list list" where
  "chunks n [] = []"
| "chunks n (x # xs) = (if n = 0 then [] else take n (x # xs) # chunks n (drop n (x # xs)))"

definition md5_block :: "md5_state \<Rightarrow> char list \<Rightarrow> md5_state" where
  "md5_block st block =
     (let M = map le_word (chunks 4 block)
      in case (st, foldl (md5_step M) st [0..<64]) of
           ((a0, b0, c0, d0), (A, B, C, D)) \<Rightarrow> (a0 + A, b0 + B, c0 + C, d0 + D))"

definition le_bytes :: "nat \<Rightarrow> 64 word \<Rightarrow> char list" where
  "le_bytes k w = map (\<lambda>i. char_of (unat (drop_bit (8 * i) w AND 0xFF))) [0..<k]"

definition md5_pad :: "char list \<Rightarrow> char list" where
  "md5_pad s =
     s @ [CHR 0x80] @ replicate ((119 - length s mod 64) mod 64) (CHR 0x00)
       @ le_bytes 8 (8 * of_nat (length s))"

definition md5_init :: md5_state where
  "md5_init = (0x67452301, 0xefcdab89, 0x98badcfe, 0x10325476)"

definition hex_lower :: "nat \<Rightarrow> char" where
  "hex_lower d = (if d < 10 then char_of (48 + d) else char_of (87 + d))"

definition digest_bytes :: "md5_state \<Rightarrow> char list" where
  "digest_bytes st = (case st of (a, b, c, d) \<Rightarrow> concat (map (\<lambda>w. le_bytes 4 (ucast w)) [a, b, c, d]))"

definition hex :: "char list \<Rightarrow> string" where
  "hex bs = concat (map (\<lambda>c. [hex_lower (of_char c div 16), hex_lower (of_char c mod 16)]) bs)"

definition hexdigest :: "md5_state \<Rightarrow> string" where
  "hexdigest st = hex (digest_bytes st)"

definition md5 :: "string \<Rightarrow> string" where
  "md5 s = hexdigest (foldl md5_block md5_init (chunks 64 (md5_pad s)))"

text \<open>
  Two texts of 72 letters and digits that differ in their 21st character, and the block
  that the padding of MD5 leaves behind their first 64 bytes.
\<close>

definition collision_text_1 :: string where
  "collision_text_1 = ''TEXTCOLLBYfGiJUETHQ4hAcKSMd5zYpgqf1YRDhkmxHkhPWptrkoyz28wnI9V0aHeAuaKnak''"

definition collision_text_2 :: string where
  "collision_text_2 = ''TEXTCOLLBYfGiJUETHQ4hEcKSMd5zYpgqf1YRDhkmxHkhPWptrkoyz28wnI9V0aHeAuaKnak''"

definition collision_tail :: string where
  "collision_tail =
     ''eAuaKnak'' @ [CHR 0x80] @ replicate 47 (CHR 0x00) @ [CHR 0x40, CHR 0x02] @ replicate 6 (CHR 0x00)"

definition empty_block :: string where
  "empty_block = CHR 0x80 # replicate 63 (CHR 0x00)"

subsection \<open>A sample request\<close>

text \<open>
  The scenario of the specification: the first strategy finds three profiles (one of them
  twice), and the inference backend answers the scoring prompt with the fixed scores
  8, 7, 9, 6, 5, 7. For the second profile it fails instead, after one transient failure
  has been retried.
\<close>

definition sample_profile :: "string \<Rightarrow> string \<Rightarrow> candidate_profile" where
  "sample_profile u n =
     \<lparr>profile_url = u, display_name = n, headline = ''Python Developer'', raw_text = [],
      source = StructuredSearch\<rparr>"

definition sample_scores :: json_object where
  "sample_scores =
     [(''education'', Number 8), (''career_trajectory'', Number 7), (''experience_match'', Number 9),
      (''company_relevance'', Number 6), (''location_match'', Number 5), (''tenure'', Number 7)]"

definition sample_environment :: environment where
  "sample_environment =
     \<lparr>env_strategies =
        \<lparr>structured_search = Found [sample_profile ''in/ann'' ''Ann'', sample_profile ''in/bob'' ''Bob'',
                                     sample_profile ''in/ann'' ''Ann'', sample_profile ''in/cy'' ''Cy''],
         alternate_search = Failed, scraping = Found []\<rparr>,
      env_scoring = (\<lambda>p. if display_name p = ''Bob'' then [TransientFailure, PermanentFailure]
                          else [TransientFailure, Reply (Some sample_scores)]),
      env_message = (\<lambda>p. ''Hi '' @ display_name p)\<rparr>"

definition sample_config :: config where
  "sample_config = \<lparr>max_results = 20, max_retries = Suc (Suc 0)\<rparr>"

definition sample_breakdown :: score_breakdown where
  "sample_breakdown =
     \<lparr>education = 8, career_trajectory = 7, experience_match = 9,
      company_relevance = 6, location_match = 5, tenure = 7\<rparr>"

definition sample_result :: "string \<Rightarrow> string \<Rightarrow> ranked_result" where
  "sample_result u n =
     \<lparr>rr_candidate = sample_profile u n, rr_fit_score = 7.35, rr_breakdown = sample_breakdown,
      rr_message = ''Hi '' @ n, rr_fallback = False\<rparr>"

definition sample_fallback_result :: "string \<Rightarrow> string \<Rightarrow> ranked_result" where
  "sample_fallback_result u n =
     \<lparr>rr_candidate = sample_profile u n, rr_fit_score = 5, rr_breakdown = fallback_breakdown,
      rr_message = ''Hi '' @ n, rr_fallback = True\<rparr>"

definition sample_card :: "string \<Rightarrow> string \<Rightarrow> real \<Rightarrow> candidate" where
  "sample_card i n s =
     \<lparr>cid = i, name = n, title = ''Python Developer'', linkedinUrl = [], fitScore = s,
      scoreBreakdown = [], outreachMessage = [], avatar = []\<rparr>"

text \<open>
  A response in the format of the README's example output, followed by an element without
  any of the properties.
\<close>

definition sample_response :: response_data where
  "sample_response =
     \<lparr>top_candidates = Some
        [\<lparr>r_name = Some ''John Smith'', r_headline = None,
          r_linkedin_url = Some ''https://linkedin.com/in/johnsmith'', r_url = None,
          r_fit_score = Some 8.5,
          r_score_breakdown = Some [(''education'', 9), (''career_trajectory'', 8),
            (''experience_match'', 9), (''company_relevance'', 7), (''location_match'', 8),
            (''tenure'', 8)],
          r_outreach_message = None, r_message = Some ''Hi John''\<rparr>,
         \<lparr>r_name = None, r_headline = None, r_linkedin_url = None, r_url = None,
          r_fit_score = None, r_score_breakdown = None, r_outreach_message = None,
          r_message = None\<rparr>]\<rparr>"

text \<open>
  A backend that answers with the sample response the request for a job description of
  a hundred letters \<^verbatim>\<open>a\<close>, and with an error without detail everything else; and the
  state of the application before the first submission.
\<close>

definition sample_post :: http_post where
  "sample_post url body =
     (if url = ''http://localhost:5000/huggingface''
         \<and> body = \<lparr>q_job_description = replicate 100 0x61, q_top_candidates = 10, q_use_cache = True\<rparr>
      then HttpOk sample_response else HttpError None)"

definition sample_app :: app_state where
  "sample_app = \<lparr>showResults = False, candidates = [], isLoading = False, app_error = None\<rparr>"

section \<open>Properties of the presentation layer\<close>

subsection \<open>Sorting\<close>

lemma mset_insert_cmp: "mset (insert_cmp cmp x ys) = add_mset x (mset ys)"
  by (induction ys) simp_all

lemma mset_array_sort: "mset (array_sort cmp xs) = mset xs"
  unfolding array_sort_def by (induction xs) (simp_all add: mset_insert_cmp)

lemma set_array_sort: "set (array_sort cmp xs) = set xs"
  using mset_array_sort [of cmp xs] by (metis set_mset_mset)

lemma set_insert_cmp: "set (insert_cmp cmp x ys) = insert x (set ys)"
  by (induction ys) auto

lemma sorted_insert_desc:
  "sorted_wrt (\<lambda>a b. f a \<ge> f b) ys \<Longrightarrow>
   sorted_wrt (\<lambda>a b. f a \<ge> (f b :: real)) (insert_cmp (\<lambda>a b. f b - f a) x ys)"
  by (induction ys) (auto simp: set_insert_cmp)

lemma sorted_array_sort_desc:
  "sorted_wrt (\<lambda>a b. f a \<ge> (f b :: real)) (array_sort (\<lambda>a b. f b - f a) xs)"
  unfolding array_sort_def by (induction xs) (simp_all add: sorted_insert_desc)

text \<open>
  Inserting into a list that is sorted by descending key puts the new element in front of
  the elements with its key: those that were behind it stay behind it.
\<close>

lemma filter_insert_desc:
  "sorted_wrt (\<lambda>a b. f a \<ge> f b) ys \<Longrightarrow>
   filter (\<lambda>c. f c = s) (insert_cmp (\<lambda>a b. f b - f a) x ys) =
     (if f x = (s::real) then x # filter (\<lambda>c. f c = s) ys else filter (\<lambda>c. f c = s) ys)"
  by (induction ys) auto

lemma filter_array_sort_desc:
  "filter (\<lambda>c. f c = (s::real)) (array_sort (\<lambda>a b. f b - f a) xs) = filter (\<lambda>c. f c = s) xs"
proof (induction xs)
  case Nil
  show ?case by (simp add: array_sort_def)
next
  case (Cons x xs)
  have "sorted_wrt (\<lambda>a b. f a \<ge> f b) (array_sort (\<lambda>a b. f b - f a) xs)"
    by (rule sorted_array_sort_desc)
  then have "filter (\<lambda>c. f c = s) (insert_cmp (\<lambda>a b. f b - f a) x (array_sort (\<lambda>a b. f b - f a) xs)) =
     (if f x = s then x # filter (\<lambda>c. f c = s) (array_sort (\<lambda>a b. f b - f a) xs)
      else filter (\<lambda>c. f c = s) (array_sort (\<lambda>a b. f b - f a) xs))"
    by (rule filter_insert_desc)
  with Cons show ?case by (simp add: array_sort_def)
qed

lemma compare_candidates_Score:
  "compare_candidates lc Score = (\<lambda>a b. fitScore b - fitScore a)"
  by (intro ext) (simp add: compare_candidates_def)

text \<open>
  C3. The candidates that \<^verbatim>\<open>ResultsDisplay\<close> presents under the ordering
  \<^verbatim>\<open>'score'\<close>, which is its initial one, are the candidates that pass the filter, in
  descending order of fit score; among candidates of one fit score the incoming order is
  kept, so the sort is stable.
\<close>

theorem ranked_by_score_stable:
  "initial_sortBy = Score
 \<and> sorted_wrt (\<lambda>a b. fitScore a \<ge> fitScore b) (filteredAndSortedCandidates lc cs Score t)
 \<and> mset (filteredAndSortedCandidates lc cs Score t) = mset (filter (\<lambda>c. t \<le> fitScore c) cs)
 \<and> (\<forall>s. filter (\<lambda>c. fitScore c = s) (filteredAndSortedCandidates lc cs Score t)
        = filter (\<lambda>c. fitScore c = s) (filter (\<lambda>c. t \<le> fitScore c) cs))"
  by (simp add: initial_sortBy_def filteredAndSortedCandidates_def compare_candidates_Score
      sorted_array_sort_desc mset_array_sort filter_array_sort_desc)

text \<open>
  C3, on three candidates: the two of fit score 7.35 come first, in their incoming order,
  and the one of fit score 5 last.
\<close>

theorem ranked_by_score_stable_witness:
  "filteredAndSortedCandidates (\<lambda>a b. 0)
     [sample_card ''0'' ''Bob'' 5, sample_card ''1'' ''Ann'' 7.35, sample_card ''2'' ''Cy'' 7.35]
     initial_sortBy initial_filterMinScore
   = [sample_card ''1'' ''Ann'' 7.35, sample_card ''2'' ''Cy'' 7.35, sample_card ''0'' ''Bob'' 5]
 \<and> sorted_wrt (\<lambda>a b. fitScore a \<ge> fitScore b)
     (filteredAndSortedCandidates (\<lambda>a b. 0)
       [sample_card ''0'' ''Bob'' 5, sample_card ''1'' ''Ann'' 7.35, sample_card ''2'' ''Cy'' 7.35]
       Score 0)"
  using ranked_by_score_stable [of "\<lambda>a b. 0"
      "[sample_card ''0'' ''Bob'' 5, sample_card ''1'' ''Ann'' 7.35, sample_card ''2'' ''Cy'' 7.35]" 0]
  by (simp add: filteredAndSortedCandidates_def compare_candidates_def array_sort_def
      initial_sortBy_def initial_filterMinScore_def sample_card_def)

subsection \<open>Filtering\<close>

text \<open>
  C10. For every list of candidates and every minimum score \<open>t\<close>, so also for the four
  options 0, 70, 80 and 90, \<^verbatim>\<open>ResultsDisplay\<close> renders exactly the candidates whose
  \<^verbatim>\<open>fitScore\<close> is at least \<open>t\<close>. The comparison is on the raw fit score: when all
  fit scores lie in \<open>[0,10]\<close> and \<open>t\<close> is 70 or more, nothing is rendered.
\<close>

theorem results_filter_raw_score:
  "ResultsDisplay lc cs False sortBy t =
      Cards (length (filteredAndSortedCandidates lc cs sortBy t))
            (filteredAndSortedCandidates lc cs sortBy t)
            (filteredAndSortedCandidates lc cs sortBy t = [])
 \<and> mset (filteredAndSortedCandidates lc cs sortBy t) = mset (filter (\<lambda>c. t \<le> fitScore c) cs)
 \<and> ((\<forall>c \<in> set cs. 0 \<le> fitScore c \<and> fitScore c \<le> 10) \<and> 70 \<le> t
      \<longrightarrow> ResultsDisplay lc cs False sortBy t = Cards 0 [] True)"
proof -
  let ?shown = "filteredAndSortedCandidates lc cs sortBy t"
  have m: "mset ?shown = mset (filter (\<lambda>c. t \<le> fitScore c) cs)"
    by (simp add: filteredAndSortedCandidates_def mset_array_sort)
  have v: "ResultsDisplay lc cs False sortBy t = Cards (length ?shown) ?shown (?shown = [])"
    by (simp add: ResultsDisplay_def Let_def)
  have e: "?shown = []" if "\<forall>c \<in> set cs. 0 \<le> fitScore c \<and> fitScore c \<le> 10" "70 \<le> t"
  proof -
    have "filter (\<lambda>c. t \<le> fitScore c) cs = []"
      using that by (auto simp: filter_empty_conv)
    then show ?thesis by (simp add: filteredAndSortedCandidates_def array_sort_def)
  qed
  show ?thesis using m v e by simp
qed

text \<open>
  C10, on two candidates of fit scores 7.35 and 5 with the option \<^verbatim>\<open>70+\<close>: no card is
  rendered.
\<close>

theorem results_filter_raw_score_witness:
  "70 \<in> set minScoreOptions
 \<and> ResultsDisplay (\<lambda>a b. 0) [sample_card ''0'' ''Ann'' 7.35, sample_card ''1'' ''Bob'' 5] False Score 70
     = Cards 0 [] True"
proof -
  have h: "(\<forall>c \<in> set [sample_card ''0'' ''Ann'' 7.35, sample_card ''1'' ''Bob'' 5].
              0 \<le> fitScore c \<and> fitScore c \<le> 10) \<and> (70::real) \<le> 70"
    by (simp add: sample_card_def)
  from results_filter_raw_score [of "\<lambda>a b. 0"
      "[sample_card ''0'' ''Ann'' 7.35, sample_card ''1'' ''Bob'' 5]" Score 70] h
  show ?thesis by (simp add: minScoreOptions_def)
qed

subsection \<open>The displayed percentage\<close>

lemma ilog2_bounds: "0 < n \<Longrightarrow> 2 ^ ilog2 n \<le> n \<and> n < 2 ^ Suc (ilog2 n)"
proof (induction n rule: ilog2.induct)
  case (1 n)
  show ?case
  proof (cases "n < 2")
    case True
    with "1.prems" show ?thesis by (simp add: ilog2.simps [of n])
  next
    case False
    then have "0 < n div 2" by simp
    with "1.IH" False have h: "2 ^ ilog2 (n div 2) \<le> n div 2" "n div 2 < 2 ^ Suc (ilog2 (n div 2))"
      by simp_all
    from False have e: "ilog2 n = Suc (ilog2 (n div 2))" by (simp add: ilog2.simps [of n])
    from h show ?thesis unfolding e by (simp, linarith)
  qed
qed

lemma exponent_less:
  assumes "\<bar>x\<bar> < 2 ^ k"
  shows "exponent x < int k"
proof (cases "1 \<le> \<bar>x\<bar>")
  case True
  let ?n = "nat \<lfloor>\<bar>x\<bar>\<rfloor>"
  from True have p: "0 < ?n" by simp
  have "real ?n \<le> \<bar>x\<bar>" by simp
  with assms have "real ?n < 2 ^ k" by linarith
  then have "?n < 2 ^ k" using of_nat_less_iff [of ?n "2 ^ k", where ?'a = real] by simp
  with ilog2_bounds [OF p] have "(2::nat) ^ ilog2 ?n < 2 ^ k" by linarith
  then have "ilog2 ?n < k" by simp
  with True show ?thesis by (simp add: exponent_def)
next
  case False
  then show ?thesis by (simp add: exponent_def)
qed

text \<open>Around a number below \<open>2 ^ k\<close> the doubles are at most \<open>1 / 2 ^ (53 - k)\<close> apart.\<close>

lemma ulp_small:
  assumes "\<bar>x\<bar> < 2 ^ k" and "k \<le> 52"
  shows "\<exists>j. ulp x = 1 / 2 ^ j \<and> 53 - k \<le> j"
proof -
  let ?e = "max (exponent x) (- 1022) - 52"
  from exponent_less [OF assms(1)] assms(2) have n: "?e \<le> int k - 53" "?e < 0" by simp_all
  then have "ulp x = 1 / 2 ^ nat (- ?e)" by (simp add: ulp_def pow2_def)
  moreover from n have "53 - k \<le> nat (- ?e)" by simp
  ultimately show ?thesis by blast
qed

lemma round_even_close: "\<bar>of_int (round_even y) - y\<bar> \<le> 1 / 2"
  by (auto simp: round_even_def Let_def; linarith)

lemma round_even_le: "y \<le> of_int c \<Longrightarrow> round_even y \<le> c"
  by (auto simp: round_even_def Let_def; linarith)

lemma round_even_nonneg: "0 \<le> y \<Longrightarrow> 0 \<le> round_even y"
  by (auto simp: round_even_def Let_def; linarith)

text \<open>
  A product or quotient between zero and a whole number \<open>c\<close> below \<open>2 ^ k\<close> rounds to a
  double between zero and \<open>c\<close>, at most \<open>1 / 2 ^ (54 - k)\<close> away from it.
\<close>

lemma nearest_bounds:
  assumes "0 \<le> x" and "x \<le> of_nat c" and "c < 2 ^ k" and "k \<le> 52"
  shows "0 \<le> nearest x \<and> nearest x \<le> of_nat c \<and> \<bar>nearest x - x\<bar> \<le> 1 / 2 ^ (54 - k)"
proof -
  from assms(3) have "real c < 2 ^ k"
    using of_nat_less_iff [of c "2 ^ k", where ?'a = real] by simp
  with assms(1,2) have "\<bar>x\<bar> < 2 ^ k" by linarith
  from ulp_small [OF this assms(4)] obtain j where u: "ulp x = 1 / 2 ^ j" and j: "53 - k \<le> j"
    by blast
  let ?y = "x * 2 ^ j"
  have n: "nearest x = of_int (round_even ?y) / 2 ^ j"
    by (simp add: nearest_def u)
  from assms(1) have "0 \<le> ?y" by simp
  then have a: "0 \<le> nearest x"
    unfolding n by (simp add: round_even_nonneg)
  from assms(2) have "?y \<le> of_int (int c * 2 ^ j)" by (simp add: mult_right_mono)
  then have "round_even ?y \<le> int c * 2 ^ j" by (rule round_even_le)
  then have "(of_int (round_even ?y) :: real) \<le> of_int (int c * 2 ^ j)" by (simp only: of_int_le_iff)
  then have b: "nearest x \<le> of_nat c"
    unfolding n by (simp add: field_simps)
  have "\<bar>nearest x - x\<bar> = \<bar>of_int (round_even ?y) - ?y\<bar> / 2 ^ j"
    unfolding n by (simp add: field_simps abs_divide)
  also have "\<dots> \<le> (1 / 2) / 2 ^ j"
    by (rule divide_right_mono [OF round_even_close]) simp
  also have "\<dots> = 1 / 2 ^ Suc j" by simp
  also from j assms(4) have "\<dots> \<le> 1 / 2 ^ (54 - k)"
    by (intro divide_left_mono power_increasing) simp_all
  finally have c: "\<bar>nearest x - x\<bar> \<le> 1 / 2 ^ (54 - k)" .
  from a b c show ?thesis by blast
qed

lemma error_chain:
  fixes a z p w :: real
  shows "\<bar>a - z\<bar> \<le> e1 \<Longrightarrow> \<bar>z - p * 100\<bar> \<le> e2 \<Longrightarrow> \<bar>p - w\<bar> \<le> e3
    \<Longrightarrow> \<bar>a - w * 100\<bar> \<le> e1 + e2 + 100 * e3"
  by linarith

lemma to_double_finite: "\<bar>nearest x\<bar> < 2 ^ 1024 \<Longrightarrow> to_double x = Finite (nearest x)"
  by (simp add: to_double_def Let_def)

lemma percentage_bounds:
  assumes "0 \<le> v" and "v \<le> 10"
  shows "\<exists>k d. percentage v = Finite d \<and> to_double (of_int k / 100) = Finite d
           \<and> 0 \<le> k \<and> k \<le> 10000
           \<and> \<bar>of_int k / 100 - v * 10\<bar> \<le> 1 / 200 + 1 / 2 ^ 45
           \<and> 0 \<le> d \<and> d \<le> 100"
proof -
  let ?p = "nearest (v * 10)"
  let ?z = "nearest (?p * 100)"
  let ?k = "\<lfloor>?z + 1 / 2\<rfloor>"
  let ?d = "nearest (of_int ?k / 100)"
  from assms have "0 \<le> v * 10" "v * 10 \<le> of_nat 100" by simp_all
  from nearest_bounds [OF this, of 7] have p: "0 \<le> ?p" "?p \<le> 100" "\<bar>?p - v * 10\<bar> \<le> 1 / 2 ^ 47"
    by simp_all
  from p have "0 \<le> ?p * 100" "?p * 100 \<le> of_nat 10000" by simp_all
  from nearest_bounds [OF this, of 14] have z: "0 \<le> ?z" "?z \<le> 10000" "\<bar>?z - ?p * 100\<bar> \<le> 1 / 2 ^ 40"
    by simp_all
  from z have k: "0 \<le> ?k" "?k \<le> 10000" by linarith+
  have kz: "\<bar>of_int ?k - ?z\<bar> \<le> 1 / 2" by linarith
  from k have "(0::real) \<le> of_int ?k / 100" "(of_int ?k :: real) / 100 \<le> of_nat 100" by simp_all
  from nearest_bounds [OF this, of 7] have d: "0 \<le> ?d" "?d \<le> 100"
    by simp_all
  have big: "(100::real) < 2 ^ 1024" "(10000::real) < 2 ^ 1024" by simp_all
  from p big have tp: "to_double (v * 10) = Finite ?p" by (intro to_double_finite) simp
  from z big have tz: "to_double (?p * 100) = Finite ?z" by (intro to_double_finite) simp
  from d big have td: "to_double (of_int ?k / 100) = Finite ?d" by (intro to_double_finite) simp
  have e: "percentage v = Finite ?d"
    by (simp add: percentage_def times_def Math_round_def divided_def tp tz td)
  from error_chain [OF kz z(3) p(3)]
  have "\<bar>of_int ?k - v * 10 * 100\<bar> \<le> 1 / 2 + 1 / 2 ^ 40 + 100 * (1 / 2 ^ 47)" .
  also have "\<dots> \<le> 1 / 2 + 100 * (1 / 2 ^ 45)" by simp
  finally have "\<bar>of_int ?k - v * 10 * 100\<bar> / 100 \<le> (1 / 2 + 100 * (1 / 2 ^ 45)) / 100"
    by (rule divide_right_mono) simp
  moreover have "\<bar>of_int ?k / 100 - v * 10\<bar> = \<bar>of_int ?k - v * 10 * 100\<bar> / 100"
    by (simp add: field_simps abs_divide)
  ultimately have b: "\<bar>of_int ?k / 100 - v * 10\<bar> \<le> 1 / 200 + 1 / 2 ^ 45" by simp
  from e td k b d show ?thesis by blast
qed

text \<open>The exponent is the one of the binade that holds the number.\<close>

lemma exponent_bounds:
  assumes "x \<noteq> 0"
  shows "pow2 (exponent x) \<le> \<bar>x\<bar> \<and> \<bar>x\<bar> < pow2 (exponent x + 1)"
proof (cases "1 \<le> \<bar>x\<bar>")
  case True
  let ?n = "nat \<lfloor>\<bar>x\<bar>\<rfloor>"
  from True have p: "0 < ?n" by simp
  have e: "exponent x = int (ilog2 ?n)" using True by (simp add: exponent_def)
  have lo: "real ?n \<le> \<bar>x\<bar>" and hi: "\<bar>x\<bar> < real ?n + 1" by linarith+
  from ilog2_bounds [OF p] have a: "2 ^ ilog2 ?n \<le> ?n" and b: "?n + 1 \<le> 2 ^ Suc (ilog2 ?n)"
    by simp_all
  from a have "(2::real) ^ ilog2 ?n \<le> real ?n"
    using of_nat_le_iff [of "2 ^ ilog2 ?n" ?n, where ?'a = real] by simp
  with lo have l: "(2::real) ^ ilog2 ?n \<le> \<bar>x\<bar>" by linarith
  from b have "real ?n + 1 \<le> 2 ^ Suc (ilog2 ?n)"
    using of_nat_le_iff [of "?n + 1" "2 ^ Suc (ilog2 ?n)", where ?'a = real] by simp
  with hi have h: "\<bar>x\<bar> < 2 ^ Suc (ilog2 ?n)" by linarith
  have "pow2 (int (ilog2 ?n)) = 2 ^ ilog2 ?n" "pow2 (int (ilog2 ?n) + 1) = 2 ^ Suc (ilog2 ?n)"
    by (simp_all add: pow2_def nat_add_distrib)
  with l h show ?thesis unfolding e by simp
next
  case False
  let ?c = "\<lceil>1 / \<bar>x\<bar>\<rceil>"
  let ?n = "nat (?c - 1)"
  let ?k = "ilog2 ?n"
  from False assms have x: "0 < \<bar>x\<bar>" "\<bar>x\<bar> < 1" by simp_all
  then have "1 < 1 / \<bar>x\<bar>" by simp
  then have c: "2 \<le> ?c" by linarith
  then have p: "0 < ?n" by simp
  have e: "exponent x = - int ?k - 1" using False by (simp add: exponent_def)
  from c have "0 \<le> ?c - 1" by linarith
  then have "real ?n = of_int (?c - 1)" by (rule of_nat_nat)
  then have n: "real ?n = of_int ?c - 1" by (simp only: of_int_diff of_int_1)
  have lo: "real ?n < 1 / \<bar>x\<bar>" and hi: "1 / \<bar>x\<bar> \<le> real ?n + 1"
    unfolding n by linarith+
  from ilog2_bounds [OF p] have a: "2 ^ ?k \<le> ?n" and b: "?n + 1 \<le> 2 ^ Suc ?k"
    by simp_all
  from a have "(2::real) ^ ?k \<le> real ?n"
    using of_nat_le_iff [of "2 ^ ?k" ?n, where ?'a = real] by simp
  with lo have "(2::real) ^ ?k < 1 / \<bar>x\<bar>" by linarith
  with x have h: "\<bar>x\<bar> < 1 / 2 ^ ?k" by (simp add: field_simps)
  from b have "real ?n + 1 \<le> 2 ^ Suc ?k"
    using of_nat_le_iff [of "?n + 1" "2 ^ Suc ?k", where ?'a = real] by simp
  with hi have "1 / \<bar>x\<bar> \<le> 2 ^ Suc ?k" by linarith
  with x have l: "1 / 2 ^ Suc ?k \<le> \<bar>x\<bar>" by (simp add: field_simps)
  have "pow2 (- int ?k - 1) = 1 / 2 ^ Suc ?k"
    by (simp add: pow2_def nat_add_distrib)
  moreover have "pow2 (- int ?k - 1 + 1) = 1 / 2 ^ ?k"
    by (cases "?k = 0") (simp_all add: pow2_def)
  ultimately show ?thesis using l h unfolding e by simp
qed

text \<open>
  The rounded value is a whole number of units in the last place and is at most half a
  unit away from the exact one.
\<close>

lemma pow2_pos: "0 < pow2 k"
  by (simp add: pow2_def)

lemma nearest_close: "\<bar>nearest x - x\<bar> \<le> ulp x / 2"
proof -
  have u: "0 < ulp x" unfolding ulp_def by (rule pow2_pos)
  have "nearest x - x = (of_int (round_even (x / ulp x)) - x / ulp x) * ulp x"
    using u by (simp add: nearest_def field_simps)
  then have "\<bar>nearest x - x\<bar> = \<bar>of_int (round_even (x / ulp x)) - x / ulp x\<bar> * ulp x"
    using u by (simp add: abs_mult)
  also have "\<dots> \<le> 1 / 2 * ulp x"
    using round_even_close [of "x / ulp x"] u by (intro mult_right_mono) simp_all
  finally show ?thesis by simp
qed

text \<open>
  The expression of the card, one operation after the other, on four numbers: the doubles
  nearest to 0.0045, to 7.35 and to 8.1235, and 7.
\<close>

lemmas double_arithmetic =
  to_double_def nearest_def ulp_def exponent_def ilog2.simps pow2_def round_even_def Let_def

lemma fitScore_sample_card: "fitScore (sample_card i n s) = s"
  by (simp add: sample_card_def)

lemma hundredths_4: "to_double (4 / 100) = Finite (5764607523034235 / 2 ^ 57)"
  by (simp add: double_arithmetic)

lemma hundredths_5: "to_double (5 / 100) = Finite (3602879701896397 / 2 ^ 56)"
  by (simp add: double_arithmetic)

lemma hundredths_8124: "to_double (8124 / 100) = Finite (5716756776993423 / 2 ^ 46)"
  by (simp add: double_arithmetic)

lemma times_10_a:
  "times (Finite (5188146770730811 / 2 ^ 60)) 10 = Finite (3242591731706757 / 2 ^ 56)"
  by (simp add: times_def double_arithmetic)

lemma times_100_a: "times (Finite (3242591731706757 / 2 ^ 56)) 100 = Finite (9 / 2)"
  by (simp add: times_def double_arithmetic)

lemma Math_round_a: "Math_round (Finite (9 / 2)) = Finite 5"
  by (simp add: Math_round_def)

lemma divided_100_a: "divided (Finite 5) 100 = Finite (3602879701896397 / 2 ^ 56)"
  by (simp add: divided_def double_arithmetic)

lemma percentage_a:
  "percentage (5188146770730811 / 2 ^ 60) = Finite (3602879701896397 / 2 ^ 56)"
  by (simp only: percentage_def times_10_a times_100_a Math_round_a divided_100_a)

lemma times_10_b: "times (Finite (4137682157646643 / 2 ^ 49)) 10 = Finite (147 / 2)"
  by (simp add: times_def double_arithmetic)

lemma times_100_b: "times (Finite (147 / 2)) 100 = Finite 7350"
  by (simp add: times_def double_arithmetic)

lemma Math_round_b: "Math_round (Finite 7350) = Finite 7350"
  by (simp add: Math_round_def)

lemma divided_100_b: "divided (Finite 7350) 100 = Finite (147 / 2)"
  by (simp add: divided_def double_arithmetic)

lemma percentage_b: "percentage (4137682157646643 / 2 ^ 49) = Finite (147 / 2)"
  by (simp only: percentage_def times_10_b times_100_b Math_round_b divided_100_b)

lemma times_10_c:
  "times (Finite (1143280986654507 / 2 ^ 47)) 10 = Finite (5716404933272535 / 2 ^ 46)"
  by (simp add: times_def double_arithmetic)

lemma times_100_c: "times (Finite (5716404933272535 / 2 ^ 46)) 100 = Finite (16247 / 2)"
  by (simp add: times_def double_arithmetic)

lemma Math_round_c: "Math_round (Finite (16247 / 2)) = Finite 8124"
  by (simp add: Math_round_def)

lemma divided_100_c: "divided (Finite 8124) 100 = Finite (5716756776993423 / 2 ^ 46)"
  by (simp add: divided_def double_arithmetic)

lemma percentage_c:
  "percentage (1143280986654507 / 2 ^ 47) = Finite (5716756776993423 / 2 ^ 46)"
  by (simp only: percentage_def times_10_c times_100_c Math_round_c divided_100_c)

lemma times_10_d: "times (Finite 7) 10 = Finite 70"
  by (simp add: times_def double_arithmetic)

lemma times_100_d: "times (Finite 70) 100 = Finite 7000"
  by (simp add: times_def double_arithmetic)

lemma Math_round_d: "Math_round (Finite 7000) = Finite 7000"
  by (simp add: Math_round_def)

lemma divided_100_d: "divided (Finite 7000) 100 = Finite 70"
  by (simp add: divided_def double_arithmetic)

lemma percentage_d: "percentage 7 = Finite 70"
  by (simp only: percentage_def times_10_d times_100_d Math_round_d divided_100_d)

text \<open>
  C8, as the specification states it, fails on doubles. For the fit score that is the
  double nearest to 0.0045, ten times the fit score is below 0.045, whether the product
  is exact or rounded to a double, and is 0.04 when rounded to two decimal places; the
  card displays the double nearest to 0.05, which is not the double nearest to 0.04.
\<close>

theorem fit_score_display_counterexample:
  "fitScoreDisplay (sample_card ''0'' ''Ann'' (5188146770730811 / 2 ^ 60))
     = Finite (3602879701896397 / 2 ^ 56)
 \<and> to_double (5 / 100) = Finite (3602879701896397 / 2 ^ 56)
 \<and> to_double (45 / 10000) = Finite (5188146770730811 / 2 ^ 60)
 \<and> fitScore (sample_card ''0'' ''Ann'' (5188146770730811 / 2 ^ 60)) * 10 < 45 / 1000
 \<and> spec_two_decimals (fitScore (sample_card ''0'' ''Ann'' (5188146770730811 / 2 ^ 60)) * 10)
     = 4 / 100
 \<and> times (Finite (fitScore (sample_card ''0'' ''Ann'' (5188146770730811 / 2 ^ 60)))) 10
     = Finite (3242591731706757 / 2 ^ 56)
 \<and> spec_two_decimals (3242591731706757 / 2 ^ 56) = 4 / 100
 \<and> fitScoreDisplay (sample_card ''0'' ''Ann'' (5188146770730811 / 2 ^ 60))
     \<noteq> to_double (spec_two_decimals
                     (fitScore (sample_card ''0'' ''Ann'' (5188146770730811 / 2 ^ 60)) * 10))"
proof -
  let ?c = "sample_card ''0'' ''Ann'' (5188146770730811 / 2 ^ 60)"
  have f: "fitScore ?c = 5188146770730811 / 2 ^ 60"
    by (rule fitScore_sample_card)
  have d: "fitScoreDisplay ?c = Finite (3602879701896397 / 2 ^ 56)"
    by (simp only: fitScoreDisplay_def f percentage_a)
  have h: "to_double (5 / 100) = Finite (3602879701896397 / 2 ^ 56)"
    by (rule hundredths_5)
  have i: "to_double (45 / 10000) = Finite (5188146770730811 / 2 ^ 60)"
    by (simp add: double_arithmetic)
  have l: "fitScore ?c * 10 < 45 / 1000"
    unfolding f by simp
  have t: "spec_two_decimals (fitScore ?c * 10) = 4 / 100"
    unfolding f by (simp add: spec_two_decimals_def)
  have m: "times (Finite (fitScore ?c)) 10 = Finite (3242591731706757 / 2 ^ 56)"
    by (simp only: f times_10_a)
  have u: "spec_two_decimals (3242591731706757 / 2 ^ 56) = 4 / 100"
    by (simp add: spec_two_decimals_def)
  have n: "fitScoreDisplay ?c \<noteq> to_double (spec_two_decimals (fitScore ?c * 10))"
    unfolding d t hundredths_4 by simp
  from d h i l t m u n show ?thesis by (intro conjI)
qed

text \<open>
  C8, amended. The displayed fit score is \<^verbatim>\<open>Math.round((fitScore * 10) * 100) / 100\<close>
  in double arithmetic. For a fit score in \<open>[0,10]\<close> it is the double nearest to a whole
  number of hundredths, that number of hundredths is at most \<open>0.005 + 1 / 2 ^ 45\<close> away
  from ten times the fit score, and the displayed value lies in \<open>[0,100]\<close>. Every value
  of the breakdown is displayed through the same function.
\<close>

theorem fit_score_display_percentage:
  "(0 \<le> fitScore c \<and> fitScore c \<le> 10 \<longrightarrow>
      (\<exists>k d. fitScoreDisplay c = Finite d \<and> to_double (of_int k / 100) = Finite d
         \<and> 0 \<le> k \<and> k \<le> 10000
         \<and> \<bar>of_int k / 100 - fitScore c * 10\<bar> \<le> 1 / 200 + 1 / 2 ^ 45
         \<and> 0 \<le> d \<and> d \<le> 100))
 \<and> fitScoreDisplay c = divided (Math_round (times (times (Finite (fitScore c)) 10) 100)) 100
 \<and> scoreBreakdownDisplay c =
     map (\<lambda>(k, v). (k, fitScoreDisplay (c\<lparr>fitScore := v\<rparr>))) (scoreBreakdown c)"
proof -
  have a: "\<exists>k d. fitScoreDisplay c = Finite d \<and> to_double (of_int k / 100) = Finite d
         \<and> 0 \<le> k \<and> k \<le> 10000
         \<and> \<bar>of_int k / 100 - fitScore c * 10\<bar> \<le> 1 / 200 + 1 / 2 ^ 45
         \<and> 0 \<le> d \<and> d \<le> 100"
    if "0 \<le> fitScore c \<and> fitScore c \<le> 10"
    unfolding fitScoreDisplay_def using that by (intro percentage_bounds) simp_all
  have b: "fitScoreDisplay c = divided (Math_round (times (times (Finite (fitScore c)) 10) 100)) 100"
    by (simp add: fitScoreDisplay_def percentage_def)
  have s: "scoreBreakdownDisplay c =
     map (\<lambda>(k, v). (k, fitScoreDisplay (c\<lparr>fitScore := v\<rparr>))) (scoreBreakdown c)"
    by (simp add: scoreBreakdownDisplay_def fitScoreDisplay_def)
  from a b s show ?thesis by blast
qed

text \<open>
  C8, on the doubles nearest to 7.35 and 8.1235: they are displayed as 73.5 and as the
  double nearest to 81.24. A breakdown value of 7 is displayed as 70.
\<close>

theorem fit_score_display_percentage_witness:
  "fitScoreDisplay (sample_card ''0'' ''Ann'' (4137682157646643 / 2 ^ 49)) = Finite (147 / 2)
 \<and> fitScoreDisplay (sample_card ''1'' ''Cy'' (1143280986654507 / 2 ^ 47))
     = Finite (5716756776993423 / 2 ^ 46)
 \<and> to_double (8124 / 100) = Finite (5716756776993423 / 2 ^ 46)
 \<and> (\<exists>k d. fitScoreDisplay (sample_card ''0'' ''Ann'' (4137682157646643 / 2 ^ 49)) = Finite d
        \<and> to_double (of_int k / 100) = Finite d \<and> 0 \<le> k \<and> k \<le> 10000
        \<and> \<bar>of_int k / 100
             - fitScore (sample_card ''0'' ''Ann'' (4137682157646643 / 2 ^ 49)) * 10\<bar>
            \<le> 1 / 200 + 1 / 2 ^ 45
        \<and> 0 \<le> d \<and> d \<le> 100)
 \<and> scoreBreakdownDisplay ((sample_card ''0'' ''Ann'' 0)\<lparr>scoreBreakdown := [(''tenure'', 7)]\<rparr>)
     = [(''tenure'', Finite 70)]"
proof -
  let ?c = "sample_card ''0'' ''Ann'' (4137682157646643 / 2 ^ 49)"
  let ?b = "(sample_card ''0'' ''Ann'' 0)\<lparr>scoreBreakdown := [(''tenure'', 7)]\<rparr>"
  have f: "fitScore ?c = 4137682157646643 / 2 ^ 49"
    by (rule fitScore_sample_card)
  have h: "0 \<le> fitScore ?c \<and> fitScore ?c \<le> 10"
    unfolding f by simp
  have e: "fitScoreDisplay ?c = Finite (147 / 2)"
    by (simp only: fitScoreDisplay_def f percentage_b)
  have g: "fitScoreDisplay (sample_card ''1'' ''Cy'' (1143280986654507 / 2 ^ 47))
         = Finite (5716756776993423 / 2 ^ 46)"
    by (simp only: fitScoreDisplay_def fitScore_sample_card percentage_c)
  have p: "to_double (8124 / 100) = Finite (5716756776993423 / 2 ^ 46)"
    by (rule hundredths_8124)
  have "scoreBreakdown ?b = [(''tenure'', 7)]"
    by simp
  then have b: "scoreBreakdownDisplay ?b = [(''tenure'', Finite 70)]"
    by (simp add: scoreBreakdownDisplay_def percentage_d)
  from fit_score_display_percentage [of ?c] h
  have r: "\<exists>k d. fitScoreDisplay ?c = Finite d \<and> to_double (of_int k / 100) = Finite d
      \<and> 0 \<le> k \<and> k \<le> 10000
      \<and> \<bar>of_int k / 100 - fitScore ?c * 10\<bar> \<le> 1 / 200 + 1 / 2 ^ 45
      \<and> 0 \<le> d \<and> d \<le> 100"
    by blast
  from e g p r b show ?thesis by (intro conjI)
qed

subsection \<open>The length gate of the form\<close>

text \<open>
  C7. When the trimmed job description has fewer than 100 or more than 2000 characters,
  \<^verbatim>\<open>handleSubmit\<close> sets the error message and does not call \<^verbatim>\<open>onSubmit\<close>, so that
  the application and the backend are not reached: whatever the backend would answer,
  the state of the application stays as it was. When the trimmed length is in
  \<open>[100, 2000]\<close>, \<^verbatim>\<open>onSubmit\<close> is called with the trimmed text, and the application
  posts one request to \<^verbatim>\<open>/huggingface\<close> whose \<^verbatim>\<open>job_description\<close> is the trimmed
  text; the answer to that request decides the new state of the application.
\<close>

theorem job_description_length_gate:
  "(length (trim (jobDescription st)) < 100 \<or> 2000 < length (trim (jobDescription st)) \<longrightarrow>
      snd (handleSubmit st) = None
    \<and> error (fst (handleSubmit st)) =
        (if length (trim (jobDescription st)) < 100
         then ''Job description must be at least 100 characters long.''
         else ''Job description must not exceed 2000 characters.'')
    \<and> submit post (st, app) = (fst (handleSubmit st), app))
 \<and> (100 \<le> length (trim (jobDescription st)) \<and> length (trim (jobDescription st)) \<le> 2000 \<longrightarrow>
      handleSubmit st = (st, Some (trim (jobDescription st)))
    \<and> submit post (st, app) = (st, handleJobSubmit post app (trim (jobDescription st)))
    \<and> q_job_description (request (trim (jobDescription st))) = trim (jobDescription st)
    \<and> submit post (st, app) =
        (st, case post (BASE_URL @ ''/huggingface'')
                    \<lparr>q_job_description = trim (jobDescription st), q_top_candidates = 10,
                     q_use_cache = True\<rparr> of
               HttpOk data \<Rightarrow>
                 \<lparr>showResults = True,
                  candidates = map to_candidate (enumerate 0 (or_object (top_candidates data) [])),
                  isLoading = False, app_error = None\<rparr>
             | HttpError detail \<Rightarrow>
                 \<lparr>showResults = False, candidates = [], isLoading = False,
                  app_error = Some (or_string detail ''Something went wrong.'')\<rparr>))"
proof -
  have r: "snd (handleSubmit st) = None
    \<and> error (fst (handleSubmit st)) =
        (if length (trim (jobDescription st)) < 100
         then ''Job description must be at least 100 characters long.''
         else ''Job description must not exceed 2000 characters.'')
    \<and> submit post (st, app) = (fst (handleSubmit st), app)"
    if "length (trim (jobDescription st)) < 100 \<or> 2000 < length (trim (jobDescription st))"
    using that by (auto simp: handleSubmit_def submit_def)
  have a: "handleSubmit st = (st, Some (trim (jobDescription st)))
    \<and> submit post (st, app) = (st, handleJobSubmit post app (trim (jobDescription st)))
    \<and> q_job_description (request (trim (jobDescription st))) = trim (jobDescription st)"
    if "100 \<le> length (trim (jobDescription st)) \<and> length (trim (jobDescription st)) \<le> 2000"
    using that by (auto simp: handleSubmit_def submit_def request_def)
  have p: "handleJobSubmit post app (trim (jobDescription st)) =
        (case post (BASE_URL @ ''/huggingface'')
                    \<lparr>q_job_description = trim (jobDescription st), q_top_candidates = 10,
                     q_use_cache = True\<rparr> of
               HttpOk data \<Rightarrow>
                 \<lparr>showResults = True,
                  candidates = map to_candidate (enumerate 0 (or_object (top_candidates data) [])),
                  isLoading = False, app_error = None\<rparr>
             | HttpError detail \<Rightarrow>
                 \<lparr>showResults = False, candidates = [], isLoading = False,
                  app_error = Some (or_string detail ''Something went wrong.'')\<rparr>)"
    by (simp add: handleJobSubmit_def fetchCandidates_def request_def split: http_result.split)
  from r a show ?thesis unfolding p [symmetric] by simp
qed

text \<open>
  C7, on a description of two letters and on one of a hundred letters, each with white
  space around it, and a backend that answers only a request to \<^verbatim>\<open>/huggingface\<close> for
  the hundred letters: the first description is rejected with the message about the
  minimum and leaves the application as it was, the second is submitted without the
  white space and the two candidates of the answer are shown.
\<close>

theorem job_description_length_gate_witness:
  "handleSubmit \<lparr>jobDescription = [0x20, 0x61, 0x62, 0x0A], error = [], charCount = 4\<rparr>
     = (\<lparr>jobDescription = [0x20, 0x61, 0x62, 0x0A],
         error = ''Job description must be at least 100 characters long.'', charCount = 4\<rparr>, None)
 \<and> handleSubmit \<lparr>jobDescription = 0x20 # replicate 100 0x61 @ [0x0A, 0x20], error = [], charCount = 103\<rparr>
     = (\<lparr>jobDescription = 0x20 # replicate 100 0x61 @ [0x0A, 0x20], error = [], charCount = 103\<rparr>,
        Some (replicate 100 0x61))
 \<and> submit sample_post
      (\<lparr>jobDescription = [0x20, 0x61, 0x62, 0x0A], error = [], charCount = 4\<rparr>, sample_app)
     = (\<lparr>jobDescription = [0x20, 0x61, 0x62, 0x0A],
         error = ''Job description must be at least 100 characters long.'', charCount = 4\<rparr>,
        sample_app)
 \<and> submit sample_post
      (\<lparr>jobDescription = 0x20 # replicate 100 0x61 @ [0x0A, 0x20], error = [], charCount = 103\<rparr>,
       sample_app)
     = (\<lparr>jobDescription = 0x20 # replicate 100 0x61 @ [0x0A, 0x20], error = [], charCount = 103\<rparr>,
        \<lparr>showResults = True,
         candidates = map to_candidate (enumerate 0 (or_object (top_candidates sample_response) [])),
         isLoading = False, app_error = None\<rparr>)
 \<and> submit (\<lambda>url body. HttpError (Some ''Rate limit''))
      (\<lparr>jobDescription = 0x20 # replicate 100 0x61 @ [0x0A, 0x20], error = [], charCount = 103\<rparr>,
       sample_app)
     = (\<lparr>jobDescription = 0x20 # replicate 100 0x61 @ [0x0A, 0x20], error = [], charCount = 103\<rparr>,
        \<lparr>showResults = False, candidates = [], isLoading = False,
         app_error = Some ''Rate limit''\<rparr>)"
proof -
  let ?short = "\<lparr>jobDescription = [0x20, 0x61, 0x62, 0x0A], error = [], charCount = 4\<rparr>"
  let ?good = "\<lparr>jobDescription = 0x20 # replicate 100 0x61 @ [0x0A, 0x20], error = [], charCount = 103\<rparr>"
  let ?fail = "\<lambda>url body. HttpError (Some ''Rate limit'')"
  have s: "trim [0x20, 0x61, 0x62, 0x0A] = [0x61, 0x62]"
    by (simp add: trim_def is_white_space_def)
  have g: "trim (0x20 # replicate 100 0x61 @ [0x0A, 0x20]) = replicate 100 0x61"
    by (simp add: trim_def is_white_space_def)
  have hs: "length (trim (jobDescription ?short)) < 100 \<or> 2000 < length (trim (jobDescription ?short))"
    by (simp add: s)
  have hg: "100 \<le> length (trim (jobDescription ?good)) \<and> length (trim (jobDescription ?good)) \<le> 2000"
    by (simp add: g)
  from job_description_length_gate [of ?short sample_post sample_app] hs
  have a: "snd (handleSubmit ?short) = None"
    and a': "submit sample_post (?short, sample_app) = (fst (handleSubmit ?short), sample_app)"
    by blast+
  from job_description_length_gate [of ?good sample_post sample_app] hg
  have b: "handleSubmit ?good = (?good, Some (trim (jobDescription ?good)))"
    and b': "submit sample_post (?good, sample_app) =
        (?good, case sample_post (BASE_URL @ ''/huggingface'')
                    \<lparr>q_job_description = trim (jobDescription ?good), q_top_candidates = 10,
                     q_use_cache = True\<rparr> of
               HttpOk data \<Rightarrow>
                 \<lparr>showResults = True,
                  candidates = map to_candidate (enumerate 0 (or_object (top_candidates data) [])),
                  isLoading = False, app_error = None\<rparr>
             | HttpError detail \<Rightarrow>
                 \<lparr>showResults = False, candidates = [], isLoading = False,
                  app_error = Some (or_string detail ''Something went wrong.'')\<rparr>)"
    by blast+
  from job_description_length_gate [of ?good ?fail sample_app] hg
  have e': "submit ?fail (?good, sample_app) =
        (?good, case ?fail (BASE_URL @ ''/huggingface'')
                    \<lparr>q_job_description = trim (jobDescription ?good), q_top_candidates = 10,
                     q_use_cache = True\<rparr> of
               HttpOk data \<Rightarrow>
                 \<lparr>showResults = True,
                  candidates = map to_candidate (enumerate 0 (or_object (top_candidates data) [])),
                  isLoading = False, app_error = None\<rparr>
             | HttpError detail \<Rightarrow>
                 \<lparr>showResults = False, candidates = [], isLoading = False,
                  app_error = Some (or_string detail ''Something went wrong.'')\<rparr>)"
    by blast
  have c: "fst (handleSubmit ?short) = ?short\<lparr>error := ''Job description must be at least 100 characters long.''\<rparr>"
    by (simp add: handleSubmit_def s)
  from a c have 1: "handleSubmit ?short =
      (?short\<lparr>error := ''Job description must be at least 100 characters long.''\<rparr>, None)"
    by (simp add: prod_eq_iff)
  from b have 2: "handleSubmit ?good = (?good, Some (replicate 100 0x61))"
    by (simp add: g)
  from a' c have 3: "submit sample_post (?short, sample_app) =
      (?short\<lparr>error := ''Job description must be at least 100 characters long.''\<rparr>, sample_app)"
    by simp
  have q: "sample_post (BASE_URL @ ''/huggingface'')
             \<lparr>q_job_description = trim (jobDescription ?good), q_top_candidates = 10,
              q_use_cache = True\<rparr> = HttpOk sample_response"
    by (simp add: sample_post_def BASE_URL_def g)
  from b' have 4: "submit sample_post (?good, sample_app) =
      (?good, \<lparr>showResults = True,
         candidates = map to_candidate (enumerate 0 (or_object (top_candidates sample_response) [])),
         isLoading = False, app_error = None\<rparr>)"
    unfolding q by simp
  from e' have 5: "submit ?fail (?good, sample_app) =
      (?good, \<lparr>showResults = False, candidates = [], isLoading = False,
         app_error = Some ''Rate limit''\<rparr>)"
    by (simp add: or_string_def)
  from 1 2 3 4 5 show ?thesis by simp
qed

subsection \<open>The mapping of the response\<close>

lemma toString_not_Nil: "toString n \<noteq> []"
  by (subst toString.simps) simp

lemma digit_char_inj: "a < 10 \<Longrightarrow> b < 10 \<Longrightarrow> digit_char a = digit_char b \<Longrightarrow> a = b"
proof -
  assume a: "a < 10" and b: "b < 10" and e: "digit_char a = digit_char b"
  from e have "(of_char (char_of (48 + a) :: char) :: nat) = of_char (char_of (48 + b) :: char)"
    by (simp add: digit_char_def)
  with a b show "a = b" by simp
qed

text \<open>Two numbers with the same decimal digits are equal.\<close>

lemma toString_inj: "toString n = toString m \<Longrightarrow> n = m"
proof (induction n arbitrary: m rule: toString.induct)
  case (1 n)
  show ?case
  proof (cases "n < 10")
    case n: True
    show ?thesis
    proof (cases "m < 10")
      case True
      with n "1.prems" show ?thesis
        by (simp add: toString.simps [of n] toString.simps [of m] digit_char_inj)
    next
      case False
      with n "1.prems" toString_not_Nil [of "m div 10"] show ?thesis
        by (simp add: toString.simps [of n] toString.simps [of m])
    qed
  next
    case n: False
    show ?thesis
    proof (cases "m < 10")
      case True
      with n "1.prems" toString_not_Nil [of "n div 10"] show ?thesis
        by (simp add: toString.simps [of n] toString.simps [of m])
    next
      case False
      with n "1.prems" have e: "toString (n div 10) = toString (m div 10)"
        and d: "digit_char (n mod 10) = digit_char (m mod 10)"
        by (simp_all add: toString.simps [of n] toString.simps [of m])
      from "1.IH" [OF n e] have q: "n div 10 = m div 10" .
      from d have r: "n mod 10 = m mod 10" by (rule digit_char_inj [rotated 2]) simp_all
      from q r show ?thesis by (metis div_mult_mod_eq)
    qed
  qed
qed

lemma distinct_map_toString: "distinct (map toString [i..<j])"
  by (simp add: distinct_map inj_on_def toString_inj)

lemma cid_to_candidate: "cid (to_candidate (i, r)) = toString i"
  by (simp add: to_candidate_def)

lemma map_cid_enumerate:
  "map cid (map to_candidate (enumerate i rs)) = map toString [i..<i + length rs]"
  by (induction rs arbitrary: i) (simp_all add: cid_to_candidate upt_rec)

text \<open>
  C9. For every response of the backend, \<^verbatim>\<open>fetchCandidates\<close> returns one candidate for
  each element of \<^verbatim>\<open>top_candidates\<close>, in order, and the empty list when that property
  is absent or null. Each property of a candidate is the value of the response when there
  is one and the default otherwise: the empty string for \<^verbatim>\<open>name\<close>, \<^verbatim>\<open>title\<close>,
  \<^verbatim>\<open>linkedinUrl\<close> and \<^verbatim>\<open>outreachMessage\<close> (the last two with a second property
  of the response to fall back on first), 0 for \<^verbatim>\<open>fitScore\<close> and the empty object for
  \<^verbatim>\<open>scoreBreakdown\<close>. The \<^verbatim>\<open>id\<close> is the position in decimal digits, so that the
  ids of one response are pairwise distinct.
\<close>

theorem fetchCandidates_maps_response:
  assumes "post (BASE_URL @ ''/huggingface'') (request jd) = HttpOk data"
  shows "\<exists>cs. fetchCandidates post jd = Inr cs
     \<and> length cs = (case top_candidates data of None \<Rightarrow> 0 | Some rs \<Rightarrow> length rs)
     \<and> (top_candidates data = None \<longrightarrow> cs = [])
     \<and> distinct (map cid cs)
     \<and> (\<forall>rs i. top_candidates data = Some rs \<and> i < length rs \<longrightarrow>
          cid (cs ! i) = toString i
        \<and> name (cs ! i) = (case r_name (rs ! i) of None \<Rightarrow> [] | Some s \<Rightarrow> s)
        \<and> title (cs ! i) = (case r_headline (rs ! i) of None \<Rightarrow> [] | Some s \<Rightarrow> s)
        \<and> linkedinUrl (cs ! i) =
            (let other = (case r_url (rs ! i) of None \<Rightarrow> [] | Some s \<Rightarrow> s)
             in case r_linkedin_url (rs ! i) of
                  None \<Rightarrow> other | Some s \<Rightarrow> if s = [] then other else s)
        \<and> fitScore (cs ! i) = (case r_fit_score (rs ! i) of None \<Rightarrow> 0 | Some x \<Rightarrow> x)
        \<and> scoreBreakdown (cs ! i) = (case r_score_breakdown (rs ! i) of None \<Rightarrow> [] | Some b \<Rightarrow> b)
        \<and> outreachMessage (cs ! i) =
            (let other = (case r_message (rs ! i) of None \<Rightarrow> [] | Some s \<Rightarrow> s)
             in case r_outreach_message (rs ! i) of
                  None \<Rightarrow> other | Some s \<Rightarrow> if s = [] then other else s))"
proof -
  let ?rs = "or_object (top_candidates data) []"
  let ?cs = "map to_candidate (enumerate 0 ?rs)"
  have f: "fetchCandidates post jd = Inr ?cs"
    using assms by (simp add: fetchCandidates_def)
  have l: "length ?cs = (case top_candidates data of None \<Rightarrow> 0 | Some rs \<Rightarrow> length rs)"
    by (simp add: or_object_def split: option.splits)
  have e: "top_candidates data = None \<longrightarrow> ?cs = []"
    by (simp add: or_object_def)
  have d: "distinct (map cid ?cs)"
    by (simp only: map_cid_enumerate distinct_map_toString)
  have p: "cid (?cs ! i) = toString i
        \<and> name (?cs ! i) = (case r_name (rs ! i) of None \<Rightarrow> [] | Some s \<Rightarrow> s)
        \<and> title (?cs ! i) = (case r_headline (rs ! i) of None \<Rightarrow> [] | Some s \<Rightarrow> s)
        \<and> linkedinUrl (?cs ! i) =
            (let other = (case r_url (rs ! i) of None \<Rightarrow> [] | Some s \<Rightarrow> s)
             in case r_linkedin_url (rs ! i) of
                  None \<Rightarrow> other | Some s \<Rightarrow> if s = [] then other else s)
        \<and> fitScore (?cs ! i) = (case r_fit_score (rs ! i) of None \<Rightarrow> 0 | Some x \<Rightarrow> x)
        \<and> scoreBreakdown (?cs ! i) = (case r_score_breakdown (rs ! i) of None \<Rightarrow> [] | Some b \<Rightarrow> b)
        \<and> outreachMessage (?cs ! i) =
            (let other = (case r_message (rs ! i) of None \<Rightarrow> [] | Some s \<Rightarrow> s)
             in case r_outreach_message (rs ! i) of
                  None \<Rightarrow> other | Some s \<Rightarrow> if s = [] then other else s)"
    if "top_candidates data = Some rs" "i < length rs" for rs i
  proof -
    from that have "?cs ! i = to_candidate (i, rs ! i)"
      by (simp add: or_object_def nth_enumerate_eq)
    then show ?thesis
      by (auto simp: to_candidate_def or_string_def or_number_def or_object_def Let_def
          split: option.splits)
  qed
  have q: "\<forall>rs i. top_candidates data = Some rs \<and> i < length rs \<longrightarrow>
          cid (?cs ! i) = toString i
        \<and> name (?cs ! i) = (case r_name (rs ! i) of None \<Rightarrow> [] | Some s \<Rightarrow> s)
        \<and> title (?cs ! i) = (case r_headline (rs ! i) of None \<Rightarrow> [] | Some s \<Rightarrow> s)
        \<and> linkedinUrl (?cs ! i) =
            (let other = (case r_url (rs ! i) of None \<Rightarrow> [] | Some s \<Rightarrow> s)
             in case r_linkedin_url (rs ! i) of
                  None \<Rightarrow> other | Some s \<Rightarrow> if s = [] then other else s)
        \<and> fitScore (?cs ! i) = (case r_fit_score (rs ! i) of None \<Rightarrow> 0 | Some x \<Rightarrow> x)
        \<and> scoreBreakdown (?cs ! i) = (case r_score_breakdown (rs ! i) of None \<Rightarrow> [] | Some b \<Rightarrow> b)
        \<and> outreachMessage (?cs ! i) =
            (let other = (case r_message (rs ! i) of None \<Rightarrow> [] | Some s \<Rightarrow> s)
             in case r_outreach_message (rs ! i) of
                  None \<Rightarrow> other | Some s \<Rightarrow> if s = [] then other else s)"
  proof (intro allI impI)
    fix rs i
    assume "top_candidates data = Some rs \<and> i < length rs"
    then have "top_candidates data = Some rs" and "i < length rs" by simp_all
    then show "cid (?cs ! i) = toString i
        \<and> name (?cs ! i) = (case r_name (rs ! i) of None \<Rightarrow> [] | Some s \<Rightarrow> s)
        \<and> title (?cs ! i) = (case r_headline (rs ! i) of None \<Rightarrow> [] | Some s \<Rightarrow> s)
        \<and> linkedinUrl (?cs ! i) =
            (let other = (case r_url (rs ! i) of None \<Rightarrow> [] | Some s \<Rightarrow> s)
             in case r_linkedin_url (rs ! i) of
                  None \<Rightarrow> other | Some s \<Rightarrow> if s = [] then other else s)
        \<and> fitScore (?cs ! i) = (case r_fit_score (rs ! i) of None \<Rightarrow> 0 | Some x \<Rightarrow> x)
        \<and> scoreBreakdown (?cs ! i) = (case r_score_breakdown (rs ! i) of None \<Rightarrow> [] | Some b \<Rightarrow> b)
        \<and> outreachMessage (?cs ! i) =
            (let other = (case r_message (rs ! i) of None \<Rightarrow> [] | Some s \<Rightarrow> s)
             in case r_outreach_message (rs ! i) of
                  None \<Rightarrow> other | Some s \<Rightarrow> if s = [] then other else s)"
      by (rule p)
  qed
  show ?thesis
    by (rule exI [of _ ?cs]) (intro conjI f l e d q)
qed

text \<open>
  C9, on a response of two elements, the second without any property: two candidates with
  the ids 0 and 1, the second made of the defaults.
\<close>

theorem fetchCandidates_maps_response_witness:
  "fetchCandidates (\<lambda>u r. HttpOk sample_response) [] =
     Inr [\<lparr>cid = ''0'', name = ''John Smith'', title = [],
           linkedinUrl = ''https://linkedin.com/in/johnsmith'', fitScore = 8.5,
           scoreBreakdown = [(''education'', 9), (''career_trajectory'', 8),
             (''experience_match'', 9), (''company_relevance'', 7), (''location_match'', 8),
             (''tenure'', 8)],
           outreachMessage = ''Hi John'',
           avatar = ''https://api.dicebear.com/7.x/identicon/svg?seed=John%20Smith''\<rparr>,
          \<lparr>cid = ''1'', name = [], title = [], linkedinUrl = [], fitScore = 0,
           scoreBreakdown = [], outreachMessage = [],
           avatar = ''https://api.dicebear.com/7.x/identicon/svg?seed=candidate''\<rparr>]
 \<and> (\<exists>cs. fetchCandidates (\<lambda>u r. HttpOk sample_response) [] = Inr cs
        \<and> length cs = 2 \<and> distinct (map cid cs) \<and> cid (cs ! 1) = toString 1
        \<and> name (cs ! 1) = [] \<and> fitScore (cs ! 1) = 0 \<and> scoreBreakdown (cs ! 1) = [])"
proof -
  have c: "toString 0 = ''0''" "toString (Suc 0) = ''1''" "hex_upper 2 = CHR ''2''" "hex_upper 0 = CHR ''0''"
    by code_simp+
  have e: "fetchCandidates (\<lambda>u r. HttpOk sample_response) [] =
     Inr [\<lparr>cid = ''0'', name = ''John Smith'', title = [],
           linkedinUrl = ''https://linkedin.com/in/johnsmith'', fitScore = 8.5,
           scoreBreakdown = [(''education'', 9), (''career_trajectory'', 8),
             (''experience_match'', 9), (''company_relevance'', 7), (''location_match'', 8),
             (''tenure'', 8)],
           outreachMessage = ''Hi John'',
           avatar = ''https://api.dicebear.com/7.x/identicon/svg?seed=John%20Smith''\<rparr>,
          \<lparr>cid = ''1'', name = [], title = [], linkedinUrl = [], fitScore = 0,
           scoreBreakdown = [], outreachMessage = [],
           avatar = ''https://api.dicebear.com/7.x/identicon/svg?seed=candidate''\<rparr>]"
    by (simp add: fetchCandidates_def sample_response_def or_object_def or_string_def or_number_def
        to_candidate_def c encodeURIComponent_def uri_unreserved_def)
  have h: "(\<lambda>u r. HttpOk sample_response) (BASE_URL @ ''/huggingface'') (request []) = HttpOk sample_response"
    by simp
  from fetchCandidates_maps_response [OF h] obtain cs where
    f: "fetchCandidates (\<lambda>u r. HttpOk sample_response) [] = Inr cs"
    and l: "length cs = (case top_candidates sample_response of None \<Rightarrow> 0 | Some rs \<Rightarrow> length rs)"
    and d: "distinct (map cid cs)"
    and p: "\<forall>rs i. top_candidates sample_response = Some rs \<and> i < length rs \<longrightarrow>
          cid (cs ! i) = toString i
        \<and> name (cs ! i) = (case r_name (rs ! i) of None \<Rightarrow> [] | Some s \<Rightarrow> s)
        \<and> title (cs ! i) = (case r_headline (rs ! i) of None \<Rightarrow> [] | Some s \<Rightarrow> s)
        \<and> linkedinUrl (cs ! i) =
            (let other = (case r_url (rs ! i) of None \<Rightarrow> [] | Some s \<Rightarrow> s)
             in case r_linkedin_url (rs ! i) of
                  None \<Rightarrow> other | Some s \<Rightarrow> if s = [] then other else s)
        \<and> fitScore (cs ! i) = (case r_fit_score (rs ! i) of None \<Rightarrow> 0 | Some x \<Rightarrow> x)
        \<and> scoreBreakdown (cs ! i) = (case r_score_breakdown (rs ! i) of None \<Rightarrow> [] | Some b \<Rightarrow> b)
        \<and> outreachMessage (cs ! i) =
            (let other = (case r_message (rs ! i) of None \<Rightarrow> [] | Some s \<Rightarrow> s)
             in case r_outreach_message (rs ! i) of
                  None \<Rightarrow> other | Some s \<Rightarrow> if s = [] then other else s)"
    by blast
  from l have l2: "length cs = 2" by (simp add: sample_response_def)
  from p [rule_format, of "the (top_candidates sample_response)" 1]
  have q: "cid (cs ! 1) = toString 1 \<and> name (cs ! 1) = [] \<and> fitScore (cs ! 1) = 0
      \<and> scoreBreakdown (cs ! 1) = []"
    by (simp add: sample_response_def)
  from f l2 d q have "\<exists>cs. fetchCandidates (\<lambda>u r. HttpOk sample_response) [] = Inr cs
        \<and> length cs = 2 \<and> distinct (map cid cs) \<and> cid (cs ! 1) = toString 1
        \<and> name (cs ! 1) = [] \<and> fitScore (cs ! 1) = 0 \<and> scoreBreakdown (cs ! 1) = []"
    by blast
  with e show ?thesis by (rule conjI)
qed

section \<open>Properties of the pipeline\<close>

subsection \<open>Scores\<close>

lemma FitScore_range: "valid_breakdown b \<Longrightarrow> 0 \<le> FitScore b \<and> FitScore b \<le> 10"
proof -
  assume "valid_breakdown b"
  then have h: "0 \<le> education b" "education b \<le> 10" "0 \<le> career_trajectory b"
    "career_trajectory b \<le> 10" "0 \<le> experience_match b" "experience_match b \<le> 10"
    "0 \<le> company_relevance b" "company_relevance b \<le> 10" "0 \<le> location_match b"
    "location_match b \<le> 10" "0 \<le> tenure b" "tenure b \<le> 10"
    by (simp_all add: valid_breakdown_def in_range_def)
  have "FitScore b = (20 * education b + 20 * career_trajectory b + 25 * experience_match b
      + 15 * company_relevance b + 10 * location_match b + 10 * tenure b) / 100"
    by (simp add: FitScore_def field_simps)
  with h show ?thesis by simp
qed

lemma criterion_in_range: "criterion obj k = Some v \<Longrightarrow> in_range v"
  by (auto simp: criterion_def split: option.splits json_value.splits if_splits)

lemma parse_breakdown_valid: "parse_breakdown obj = Some b \<Longrightarrow> valid_breakdown b"
  by (auto simp: parse_breakdown_def valid_breakdown_def split: option.splits
      dest: criterion_in_range)

lemma fallback_breakdown_valid: "valid_breakdown fallback_breakdown"
  by (simp add: valid_breakdown_def fallback_breakdown_def in_range_def)

lemma score_consistent:
  "sr_fit_score (score n answers) = FitScore (sr_breakdown (score n answers))"
  by (simp add: score_def scored_def split: option.splits)

lemma score_valid: "valid_breakdown (sr_breakdown (score n answers))"
  by (auto simp: score_def scored_def fallback_breakdown_valid
      split: option.splits dest: parse_breakdown_valid)

lemma score_fallback:
  "sr_fallback (score n answers) \<Longrightarrow> sr_breakdown (score n answers) = fallback_breakdown"
  by (auto simp: score_def scored_def split: option.splits)

text \<open>Every result of the pipeline is the scored and composed form of some profile.\<close>

lemma run_pipeline_results:
  assumes "run_pipeline cfg env n = Inr rs" "r \<in> set rs"
  shows "\<exists>p. r = score_and_compose cfg env p"
proof -
  from assms(1) obtain ps where
    rs: "rs = take n (rank (map (score_and_compose cfg env) ps))"
    by (auto simp: run_pipeline_def split: sum.splits)
  from assms(2) have "r \<in> set (rank (map (score_and_compose cfg env) ps))"
    unfolding rs by (rule in_set_takeD)
  then show ?thesis by (auto simp: rank_def set_array_sort)
qed

lemma score_and_compose_consistent:
  "rr_fit_score (score_and_compose cfg env p) = FitScore (rr_breakdown (score_and_compose cfg env p))"
  by (simp add: score_and_compose_def Let_def score_consistent)

lemma score_and_compose_valid:
  "valid_breakdown (rr_breakdown (score_and_compose cfg env p))"
  by (simp add: score_and_compose_def Let_def score_valid)

lemma score_and_compose_fallback:
  "rr_fallback (score_and_compose cfg env p) \<Longrightarrow>
   rr_breakdown (score_and_compose cfg env p) = fallback_breakdown"
  by (simp add: score_and_compose_def Let_def score_fallback)

lemma sample_run:
  "run_pipeline sample_config sample_environment 10 =
     Inr [sample_result ''in/ann'' ''Ann'', sample_result ''in/cy'' ''Cy'',
          sample_fallback_result ''in/bob'' ''Bob'']"
  by (simp add: run_pipeline_def discover_def chain_def sample_environment_def sample_config_def
      sample_profile_def score_and_compose_def score_def scored_def sample_scores_def
      parse_breakdown_def criterion_def in_range_def FitScore_def fallback_breakdown_def
      rank_def array_sort_def sample_result_def sample_fallback_result_def sample_breakdown_def)

text \<open>
  C1, as the specification states it, fails on its example: the weighted sum of the
  breakdown 8, 7, 9, 6, 5, 7 is not 7.55.
\<close>

theorem fit_score_example_counterexample:
  "FitScore \<lparr>education = 8, career_trajectory = 7, experience_match = 9,
             company_relevance = 6, location_match = 5, tenure = 7\<rparr> \<noteq> 7.55"
  by (simp add: FitScore_def)

text \<open>
  C1, amended. For every candidate that the pipeline returns, the fit score is the
  weighted sum of its breakdown, with the weights 0.20, 0.20, 0.25, 0.15, 0.10 and 0.10,
  and lies in \<open>[0,10]\<close>; the weighted sum of any breakdown whose six values lie in
  \<open>[0,10]\<close> lies in \<open>[0,10]\<close>; the weights add up to one, so that a breakdown of six
  equal values has that value as its fit score; and the breakdown 8, 7, 9, 6, 5, 7 has
  the fit score 7.35.
\<close>

theorem fit_score_weighted_sum:
  "(run_pipeline cfg env n = Inr rs \<and> r \<in> set rs \<longrightarrow>
      rr_fit_score r = FitScore (rr_breakdown r) \<and> 0 \<le> rr_fit_score r \<and> rr_fit_score r \<le> 10)
 \<and> FitScore b =
      education b * 0.20 + career_trajectory b * 0.20 + experience_match b * 0.25
    + company_relevance b * 0.15 + location_match b * 0.10 + tenure b * 0.10
 \<and> (valid_breakdown b \<longrightarrow> 0 \<le> FitScore b \<and> FitScore b \<le> 10)
 \<and> FitScore \<lparr>education = v, career_trajectory = v, experience_match = v,
             company_relevance = v, location_match = v, tenure = v\<rparr> = v
 \<and> FitScore \<lparr>education = 8, career_trajectory = 7, experience_match = 9,
             company_relevance = 6, location_match = 5, tenure = 7\<rparr> = 7.35"
proof -
  have a: "rr_fit_score r = FitScore (rr_breakdown r) \<and> 0 \<le> rr_fit_score r \<and> rr_fit_score r \<le> 10"
    if "run_pipeline cfg env n = Inr rs" "r \<in> set rs"
  proof -
    from run_pipeline_results [OF that] obtain p where r: "r = score_and_compose cfg env p" ..
    show ?thesis
      unfolding r using FitScore_range [OF score_and_compose_valid [of cfg env p]]
      by (simp add: score_and_compose_consistent)
  qed
  have b: "FitScore \<lparr>education = v, career_trajectory = v, experience_match = v,
             company_relevance = v, location_match = v, tenure = v\<rparr> = v"
    by (simp add: FitScore_def)
  have c: "FitScore \<lparr>education = 8, career_trajectory = 7, experience_match = 9,
             company_relevance = 6, location_match = 5, tenure = 7\<rparr> = 7.35"
    by (simp add: FitScore_def)
  have d: "FitScore b =
      education b * 0.20 + career_trajectory b * 0.20 + experience_match b * 0.25
    + company_relevance b * 0.15 + location_match b * 0.10 + tenure b * 0.10"
    by (simp only: FitScore_def)
  from a b c d FitScore_range [of b] show ?thesis by blast
qed

text \<open>
  C1, on the sample request: the candidates scored 8, 7, 9, 6, 5, 7 have the fit score
  7.35 and are ranked before the candidate with the fallback breakdown.
\<close>

theorem fit_score_weighted_sum_witness:
  "run_pipeline sample_config sample_environment 10 =
     Inr [sample_result ''in/ann'' ''Ann'', sample_result ''in/cy'' ''Cy'',
          sample_fallback_result ''in/bob'' ''Bob'']
 \<and> rr_fit_score (sample_result ''in/cy'' ''Cy'') = FitScore (rr_breakdown (sample_result ''in/cy'' ''Cy''))
 \<and> rr_fit_score (sample_result ''in/cy'' ''Cy'') = 7.35
 \<and> valid_breakdown sample_breakdown
 \<and> 0 \<le> FitScore sample_breakdown \<and> FitScore sample_breakdown \<le> 10"
proof -
  let ?cy = "sample_result ''in/cy'' ''Cy''"
  have m: "?cy \<in> set [sample_result ''in/ann'' ''Ann'', ?cy, sample_fallback_result ''in/bob'' ''Bob'']"
    by simp
  have v: "valid_breakdown sample_breakdown"
    by (simp add: valid_breakdown_def sample_breakdown_def in_range_def)
  from fit_score_weighted_sum [of sample_config sample_environment 10
      "[sample_result ''in/ann'' ''Ann'', ?cy, sample_fallback_result ''in/bob'' ''Bob'']"
      ?cy sample_breakdown 0] sample_run m v
  have t: "rr_fit_score ?cy = FitScore (rr_breakdown ?cy)
      \<and> 0 \<le> FitScore sample_breakdown \<and> FitScore sample_breakdown \<le> 10"
    by blast
  have f: "rr_fit_score ?cy = 7.35"
    by (simp add: sample_result_def)
  from sample_run t f v show ?thesis by blast
qed

subsection \<open>The breakdown that reaches the presentation layer\<close>

lemma breakdown_entries_keys: "map fst (breakdown_entries b) = criteria"
  by (simp add: breakdown_entries_def criteria_def)

lemma breakdown_entries_values:
  "valid_breakdown b \<Longrightarrow> v \<in> set (map snd (breakdown_entries b)) \<Longrightarrow> 0 \<le> v \<and> v \<le> 10"
  by (auto simp: breakdown_entries_def valid_breakdown_def in_range_def)

text \<open>
  The frontend stores the object of the response as it is: its default, the empty object,
  is for a response without \<^verbatim>\<open>score_breakdown\<close>, which the pipeline does not produce.
\<close>

lemma to_candidate_breakdown:
  "scoreBreakdown (to_candidate (i, to_response_candidate r)) = breakdown_entries (rr_breakdown r)"
  by (simp add: to_candidate_def to_response_candidate_def or_object_def)

text \<open>
  C2. Every candidate that the pipeline returns, and that \<^verbatim>\<open>fetchCandidates\<close> hands to
  the presentation layer, has a score breakdown with exactly the six keys
  \<^verbatim>\<open>education\<close>, \<^verbatim>\<open>career_trajectory\<close>, \<^verbatim>\<open>experience_match\<close>,
  \<^verbatim>\<open>company_relevance\<close>, \<^verbatim>\<open>location_match\<close> and \<^verbatim>\<open>tenure\<close>, each with a value in
  \<open>[0,10]\<close>. It is the breakdown of a result of the pipeline, which is the fallback
  breakdown when the result is marked as a fallback.
\<close>

theorem breakdown_six_criteria:
  assumes "fetchCandidates (\<lambda>url. endpoint cfg env) jd = Inr cs" and "c \<in> set cs"
  shows "map fst (scoreBreakdown c) = criteria
       \<and> (\<forall>v \<in> set (map snd (scoreBreakdown c)). 0 \<le> v \<and> v \<le> 10)
       \<and> (\<exists>rs r. run_pipeline cfg env (q_top_candidates (request jd)) = Inr rs \<and> r \<in> set rs
            \<and> valid_breakdown (rr_breakdown r)
            \<and> (rr_fallback r \<longrightarrow> rr_breakdown r = fallback_breakdown)
            \<and> scoreBreakdown c = breakdown_entries (rr_breakdown r))"
proof -
  from assms(1) obtain rs where
    run: "run_pipeline cfg env (q_top_candidates (request jd)) = Inr rs"
    and cs: "cs = map to_candidate (enumerate 0 (map to_response_candidate rs))"
    by (auto simp: fetchCandidates_def endpoint_def or_object_def split: sum.splits)
  from assms(2) obtain i r where r: "r \<in> set rs" and c: "c = to_candidate (i, to_response_candidate r)"
    unfolding cs by (auto simp: enumerate_eq_zip dest!: set_zip_rightD)
  from run_pipeline_results [OF run r] obtain p where p: "r = score_and_compose cfg env p" ..
  have v: "valid_breakdown (rr_breakdown r)"
    unfolding p by (rule score_and_compose_valid)
  have f: "rr_fallback r \<longrightarrow> rr_breakdown r = fallback_breakdown"
    unfolding p by (simp add: score_and_compose_fallback)
  have s: "scoreBreakdown c = breakdown_entries (rr_breakdown r)"
    unfolding c by (rule to_candidate_breakdown)
  from v have "\<forall>v \<in> set (map snd (scoreBreakdown c)). 0 \<le> v \<and> v \<le> 10"
    unfolding s by (blast dest: breakdown_entries_values)
  with run r v f s show ?thesis
    by (auto simp: breakdown_entries_keys)
qed

text \<open>
  C2, on the sample request: the candidate whose scoring failed reaches the presentation
  layer with the six keys, each with the value 5.
\<close>

theorem breakdown_six_criteria_witness:
  "\<exists>cs c. fetchCandidates (\<lambda>url. endpoint sample_config sample_environment) [] = Inr cs
     \<and> c \<in> set cs \<and> name c = ''Bob''
     \<and> map fst (scoreBreakdown c) = criteria
     \<and> scoreBreakdown c =
         [(''education'', 5), (''career_trajectory'', 5), (''experience_match'', 5),
          (''company_relevance'', 5), (''location_match'', 5), (''tenure'', 5)]"
proof -
  let ?rs = "[sample_result ''in/ann'' ''Ann'', sample_result ''in/cy'' ''Cy'',
              sample_fallback_result ''in/bob'' ''Bob'']"
  let ?cs = "map to_candidate (enumerate 0 (map to_response_candidate ?rs))"
  let ?c = "to_candidate (Suc (Suc 0), to_response_candidate (sample_fallback_result ''in/bob'' ''Bob''))"
  have f: "fetchCandidates (\<lambda>url. endpoint sample_config sample_environment) [] = Inr ?cs"
    by (simp add: fetchCandidates_def endpoint_def request_def sample_run or_object_def)
  have m: "?c \<in> set ?cs"
    by simp
  have n: "name ?c = ''Bob''"
    by (simp add: to_candidate_def to_response_candidate_def sample_fallback_result_def
        sample_profile_def or_string_def)
  have b: "scoreBreakdown ?c =
         [(''education'', 5), (''career_trajectory'', 5), (''experience_match'', 5),
          (''company_relevance'', 5), (''location_match'', 5), (''tenure'', 5)]"
    by (simp add: to_candidate_def to_response_candidate_def sample_fallback_result_def
        or_object_def breakdown_entries_def fallback_breakdown_def)
  from breakdown_six_criteria [OF f m] have k: "map fst (scoreBreakdown ?c) = criteria"
    by blast
  from f m n k b show ?thesis by blast
qed

subsection \<open>Discovery\<close>

lemma discover_unavailable_iff:
  "discover s n = Inl DiscoveryUnavailable \<longleftrightarrow>
     structured_search s = Failed \<and> alternate_search s = Failed \<and> scraping s = Failed"
  by (cases "structured_search s"; cases "alternate_search s"; cases "scraping s")
     (simp_all add: discover_def chain_def split: option.splits)

text \<open>
  C4. When every discovery strategy yields zero profiles, \<^verbatim>\<open>discover\<close> returns the
  empty sequence and raises nothing. It signals \<^verbatim>\<open>DiscoveryUnavailable\<close> exactly when
  every strategy of the chain failed outright; the pipeline then aborts the request with
  that error, and it aborts in no other case.
\<close>

theorem discovery_unavailable_only_on_failure:
  "(structured_search s = Found [] \<and> alternate_search s = Found [] \<and> scraping s = Found []
      \<longrightarrow> discover s n = Inr [])
 \<and> (discover s n = Inl DiscoveryUnavailable \<longleftrightarrow>
      structured_search s = Failed \<and> alternate_search s = Failed \<and> scraping s = Failed)
 \<and> (structured_search (env_strategies env) = Failed \<and> alternate_search (env_strategies env) = Failed
      \<and> scraping (env_strategies env) = Failed
      \<longrightarrow> run_pipeline cfg env top_n = Inl DiscoveryUnavailable)
 \<and> (\<forall>e. run_pipeline cfg env top_n = Inl e \<longrightarrow>
      structured_search (env_strategies env) = Failed \<and> alternate_search (env_strategies env) = Failed
      \<and> scraping (env_strategies env) = Failed)"
proof -
  have a: "discover s n = Inr []"
    if "structured_search s = Found [] \<and> alternate_search s = Found [] \<and> scraping s = Found []"
    using that by (simp add: discover_def chain_def)
  have c: "run_pipeline cfg env top_n = Inl DiscoveryUnavailable"
    if "structured_search (env_strategies env) = Failed \<and> alternate_search (env_strategies env) = Failed
      \<and> scraping (env_strategies env) = Failed"
    using that discover_unavailable_iff [of "env_strategies env" "max_results cfg"]
    by (simp add: run_pipeline_def)
  have d: "structured_search (env_strategies env) = Failed \<and> alternate_search (env_strategies env) = Failed
      \<and> scraping (env_strategies env) = Failed"
    if "run_pipeline cfg env top_n = Inl e" for e
  proof -
    from that have "discover (env_strategies env) (max_results cfg) = Inl e"
      by (auto simp: run_pipeline_def split: sum.splits)
    then have "discover (env_strategies env) (max_results cfg) = Inl DiscoveryUnavailable"
      by (cases e) simp
    then show ?thesis by (simp only: discover_unavailable_iff)
  qed
  from a c d discover_unavailable_iff [of s n] show ?thesis by blast
qed

text \<open>
  C4, on three requests: all strategies without a profile, all strategies failed, and one
  strategy without a profile among failed ones.
\<close>

theorem discovery_unavailable_only_on_failure_witness:
  "discover \<lparr>structured_search = Found [], alternate_search = Found [], scraping = Found []\<rparr> 20 = Inr []
 \<and> discover \<lparr>structured_search = Failed, alternate_search = Failed, scraping = Failed\<rparr> 20
     = Inl DiscoveryUnavailable
 \<and> run_pipeline sample_config
     (sample_environment\<lparr>env_strategies :=
        \<lparr>structured_search = Failed, alternate_search = Failed, scraping = Failed\<rparr>\<rparr>) 10
     = Inl DiscoveryUnavailable
 \<and> discover \<lparr>structured_search = Failed, alternate_search = Found [], scraping = Failed\<rparr> 20
     \<noteq> Inl DiscoveryUnavailable"
proof -
  let ?none = "\<lparr>structured_search = Found [], alternate_search = Found [], scraping = Found []\<rparr>"
  let ?failed = "\<lparr>structured_search = Failed, alternate_search = Failed, scraping = Failed\<rparr>"
  let ?mixed = "\<lparr>structured_search = Failed, alternate_search = Found [], scraping = Failed\<rparr>"
  let ?env = "sample_environment\<lparr>env_strategies := ?failed\<rparr>"
  have h1: "structured_search ?none = Found [] \<and> alternate_search ?none = Found []
      \<and> scraping ?none = Found []"
    by simp
  have h2: "structured_search ?failed = Failed \<and> alternate_search ?failed = Failed
      \<and> scraping ?failed = Failed"
    by simp
  have h3: "structured_search (env_strategies ?env) = Failed
      \<and> alternate_search (env_strategies ?env) = Failed \<and> scraping (env_strategies ?env) = Failed"
    by simp
  have h4: "alternate_search ?mixed \<noteq> Failed"
    by simp
  from discovery_unavailable_only_on_failure [of ?none 20 ?env sample_config 10] h1 h3
  have a: "discover ?none 20 = Inr [] \<and> run_pipeline sample_config ?env 10 = Inl DiscoveryUnavailable"
    by blast
  from discovery_unavailable_only_on_failure [of ?failed 20 ?env sample_config 10] h2
  have b: "discover ?failed 20 = Inl DiscoveryUnavailable"
    by blast
  from discovery_unavailable_only_on_failure [of ?mixed 20 ?env sample_config 10] h4
  have c: "discover ?mixed 20 \<noteq> Inl DiscoveryUnavailable"
    by blast
  from a b c show ?thesis by blast
qed

subsection \<open>Cache keys\<close>

lemma collapse_no_space: "\<forall>c \<in> set s. \<not> is_space c \<Longrightarrow> collapse s = s"
  by (induction s rule: collapse.induct) simp_all

lemma normalise_no_space: "\<forall>c \<in> set s. \<not> is_space c \<Longrightarrow> normalise s = s"
proof -
  assume h: "\<forall>c \<in> set s. \<not> is_space c"
  then have a: "dropWhile is_space s = s"
    by (cases s) simp_all
  from h have b: "dropWhile is_space (rev s) = rev s"
    by (cases "rev s") (simp, metis dropWhile.simps(2) list.set_intros(1) set_rev)
  from a b h show ?thesis by (simp add: normalise_def collapse_no_space)
qed

text \<open>
  No hash function with digests of 128 bits gives different keys to all job descriptions
  with different normalized texts: the texts of one letter \<open>a\<close> repeated are
  normalized and pairwise different, and there are more of them than digests.
\<close>

lemma no_collision_free_digest:
  "\<not> (\<exists>digest :: string \<Rightarrow> 128 word.
        \<forall>a b. normalise a \<noteq> normalise b \<longrightarrow> cache_key digest a \<noteq> cache_key digest b)"
proof
  assume "\<exists>digest :: string \<Rightarrow> 128 word.
        \<forall>a b. normalise a \<noteq> normalise b \<longrightarrow> cache_key digest a \<noteq> cache_key digest b"
  then obtain digest :: "string \<Rightarrow> 128 word" where
    d: "\<And>a b. normalise a \<noteq> normalise b \<Longrightarrow> cache_key digest a \<noteq> cache_key digest b"
    by blast
  let ?text = "\<lambda>n::nat. replicate n (CHR ''a'')"
  have n: "normalise (?text k) = ?text k" for k
    by (rule normalise_no_space) (simp add: is_space_def)
  have "inj (\<lambda>k. cache_key digest (?text k))"
  proof (rule injI)
    fix i j
    assume e: "cache_key digest (?text i) = cache_key digest (?text j)"
    have "normalise (?text i) = normalise (?text j)"
      using d [of "?text i" "?text j"] e by blast
    then have "?text i = ?text j" by (simp only: n)
    then have "length (?text i) = length (?text j)" by (rule arg_cong)
    then show "i = j" by simp
  qed
  moreover have "finite (range (\<lambda>k. cache_key digest (?text k)))"
    by (rule finite_subset [OF subset_UNIV]) simp
  ultimately have "finite (UNIV :: nat set)"
    by (rule finite_imageD [rotated])
  then show False by simp
qed

text \<open>
  The test vector of RFC 1321 for the empty text, computed block by block: the padded
  text, the state after its one block, the bytes of the digest and their hexadecimal form.
\<close>

lemma chunks_empty: "chunks 64 (md5_pad []) = [empty_block]"
  by code_simp

lemma block_empty: "md5_block md5_init empty_block = (0xd98c1dd4, 0x04b2008f, 0x980980e9, 0x7e42f8ec)"
  by code_simp

lemma bytes_empty:
  "digest_bytes (0xd98c1dd4, 0x04b2008f, 0x980980e9, 0x7e42f8ec) =
     [CHR 0xd4, CHR 0x1d, CHR 0x8c, CHR 0xd9, CHR 0x8f, CHR 0x00, CHR 0xb2, CHR 0x04,
      CHR 0xe9, CHR 0x80, CHR 0x09, CHR 0x98, CHR 0xec, CHR 0xf8, CHR 0x42, CHR 0x7e]"
  by code_simp

lemma hex_empty:
  "hex [CHR 0xd4, CHR 0x1d, CHR 0x8c, CHR 0xd9, CHR 0x8f, CHR 0x00, CHR 0xb2, CHR 0x04,
        CHR 0xe9, CHR 0x80, CHR 0x09, CHR 0x98, CHR 0xec, CHR 0xf8, CHR 0x42, CHR 0x7e]
     = ''d41d8cd98f00b204e9800998ecf8427e''"
  by code_simp

lemma md5_empty: "md5 [] = ''d41d8cd98f00b204e9800998ecf8427e''"
  by (simp add: md5_def hexdigest_def chunks_empty block_empty bytes_empty hex_empty)

text \<open>
  The two texts of the collision, block by block. After the first block the states differ
  in the highest bit of each word; the second block, which is the same for both texts,
  brings them together.
\<close>

lemma chunks_1: "chunks 64 (md5_pad collision_text_1) = [take 64 collision_text_1, collision_tail]"
  by code_simp

lemma chunks_2: "chunks 64 (md5_pad collision_text_2) = [take 64 collision_text_2, collision_tail]"
  by code_simp

lemma block_1:
  "md5_block md5_init (take 64 collision_text_1) = (0xe22ebfe4, 0x9e2ac02a, 0x9b6b3769, 0xcd599281)"
  by code_simp

lemma block_2:
  "md5_block md5_init (take 64 collision_text_2) = (0x622ebfe4, 0x1e2ac02a, 0x1b6b3769, 0x4d599281)"
  by code_simp

lemma tail_1:
  "md5_block (0xe22ebfe4, 0x9e2ac02a, 0x9b6b3769, 0xcd599281) collision_tail
     = (0x8649adfa, 0xfc98946e, 0x28f51917, 0x69027a9e)"
  by code_simp

lemma tail_2:
  "md5_block (0x622ebfe4, 0x1e2ac02a, 0x1b6b3769, 0x4d599281) collision_tail
     = (0x8649adfa, 0xfc98946e, 0x28f51917, 0x69027a9e)"
  by code_simp

lemma bytes_collision:
  "digest_bytes (0x8649adfa, 0xfc98946e, 0x28f51917, 0x69027a9e) =
     [CHR 0xfa, CHR 0xad, CHR 0x49, CHR 0x86, CHR 0x6e, CHR 0x94, CHR 0x98, CHR 0xfc,
      CHR 0x17, CHR 0x19, CHR 0xf5, CHR 0x28, CHR 0x9e, CHR 0x7a, CHR 0x02, CHR 0x69]"
  by code_simp

lemma hex_collision:
  "hex [CHR 0xfa, CHR 0xad, CHR 0x49, CHR 0x86, CHR 0x6e, CHR 0x94, CHR 0x98, CHR 0xfc,
        CHR 0x17, CHR 0x19, CHR 0xf5, CHR 0x28, CHR 0x9e, CHR 0x7a, CHR 0x02, CHR 0x69]
     = ''faad49866e9498fc1719f5289e7a0269''"
  by code_simp

lemma md5_collision_text_1: "md5 collision_text_1 = ''faad49866e9498fc1719f5289e7a0269''"
  by (simp add: md5_def hexdigest_def chunks_1 block_1 tail_1 bytes_collision hex_collision)

lemma md5_collision_text_2: "md5 collision_text_2 = ''faad49866e9498fc1719f5289e7a0269''"
  by (simp add: md5_def hexdigest_def chunks_2 block_2 tail_2 bytes_collision hex_collision)

lemma normalise_collision_texts:
  "normalise collision_text_1 = collision_text_1" "normalise collision_text_2 = collision_text_2"
  by (rule normalise_no_space, simp add: collision_text_1_def collision_text_2_def is_space_def)+

text \<open>
  C6, as the specification states it, fails in its second half. The two texts are
  normalized and differ, and their MD5 digests are equal:
  \<^verbatim>\<open>faad49866e9498fc1719f5289e7a0269\<close> for both, so that the two job descriptions
  share a cache key. No other hash function with digests of 128 bits does better.
\<close>

theorem cache_key_collision_counterexample:
  "normalise collision_text_1 \<noteq> normalise collision_text_2
 \<and> cache_key md5 collision_text_1 = ''faad49866e9498fc1719f5289e7a0269''
 \<and> cache_key md5 collision_text_2 = ''faad49866e9498fc1719f5289e7a0269''
 \<and> \<not> (\<exists>digest :: string \<Rightarrow> 128 word.
        \<forall>a b. normalise a \<noteq> normalise b \<longrightarrow> cache_key digest a \<noteq> cache_key digest b)"
proof -
  have "collision_text_1 \<noteq> collision_text_2"
    by (simp add: collision_text_1_def collision_text_2_def)
  then have d: "normalise collision_text_1 \<noteq> normalise collision_text_2"
    by (simp add: normalise_collision_texts)
  have k: "cache_key md5 collision_text_1 = ''faad49866e9498fc1719f5289e7a0269''"
      "cache_key md5 collision_text_2 = ''faad49866e9498fc1719f5289e7a0269''"
    by (simp_all only: cache_key_def normalise_collision_texts md5_collision_text_1 md5_collision_text_2)
  from d k no_collision_free_digest show ?thesis by (intro conjI)
qed

text \<open>
  C6, amended. Two job descriptions with the same normalized text have the same cache
  key. Two job descriptions with different normalized texts have different cache keys
  when the hash function has no collision on the normalized texts of the job descriptions
  under consideration.
\<close>

theorem cache_key_normalised:
  "(normalise a = normalise b \<longrightarrow> cache_key digest a = cache_key digest b)
 \<and> (inj_on digest (normalise ` T) \<and> a \<in> T \<and> b \<in> T \<and> normalise a \<noteq> normalise b
      \<longrightarrow> cache_key digest a \<noteq> cache_key digest b)"
  by (auto simp: cache_key_def inj_on_def)

text \<open>
  C6, on three job descriptions, with the length of the text as a hash function of
  128 bits: the first two differ in white space only and share a key, the third has
  another normalized text and another key.
\<close>

theorem cache_key_normalised_witness:
  "normalise ''  a  b '' = normalise ''a b''
 \<and> cache_key (\<lambda>s. of_nat (length s) :: 128 word) ''  a  b '' = cache_key (\<lambda>s. of_nat (length s)) ''a b''
 \<and> normalise ''a b'' \<noteq> normalise ''c ''
 \<and> cache_key (\<lambda>s. of_nat (length s) :: 128 word) ''a b'' \<noteq> cache_key (\<lambda>s. of_nat (length s)) ''c ''"
proof -
  let ?d = "\<lambda>s. of_nat (length s) :: 128 word"
  have e: "normalise ''  a  b '' = normalise ''a b''"
    by (simp add: normalise_def is_space_def)
  have n: "normalise ''a b'' = ''a b''" "normalise ''c '' = ''c''"
    by (simp_all add: normalise_def is_space_def)
  have i: "inj_on ?d (normalise ` {''a b'', ''c ''})"
    by (simp add: n)
  from cache_key_normalised [of "''  a  b ''" "''a b''" ?d "{}"] e
    cache_key_normalised [of "''a b''" "''c ''" ?d "{''a b'', ''c ''}"] i n
  show ?thesis by simp
qed

end
